theory Spec2Isabelle
  imports Main "HOL-Library.Word"
begin

section \<open>Errors\<close>

text \<open>
  The catalog reports failures as Go \<open>error\<close> values built with \<open>fmt.Errorf\<close>. Each
  distinct message of the source is one constructor here, carrying the names the message
  interpolates. \<open>ExternalError\<close> stands for an error handed up from a library call
  (file system, gob, zstd), \<open>RuntimePanic\<close> for a Go run-time panic (a failed type
  assertion, a slice bound out of range, a comparison of uncomparable values).
\<close>

datatype error =
    UserDoesNotExist string
  | PrivilegeDoesNotExist string
  | PrivilegeAlreadyExists string
  | ColumnCannotBeNull string
  | NotAString string
  | NotABoolean string
  | NotAValidBinary string
  | ColumnTooLong string
  | NotAValidUUID string
  | NotAValidDatetime string
  | NotAValidDate string
  | NotAValidTime string
  | NotAFloat string
  | NotAFloat64 string
  | TooManyDigits string
  | ColumnTooLarge string
  | SequenceMustBeUnique string
  | NotAnInt string
  | TooLargeForInt string
  | TooLargeForSmallint string
  | InvalidDataType string
  | ProblemGettingUniqueRowsFor string
  | ProblemGettingUniqueRows
  | RowAlreadyExists string string
  | ForeignKeyViolation string
  | ColumnDoesNotExist string
  | TableSchemaIsNil
  | TableNameTooLong
  | TableAlreadyExists string
  | ColumnNameTooLong
  | OnlyOneSequence
  | SequenceMustBeUniqueNotNull string
  | SequenceMustBeInteger string
  | RequiresLength string
  | RequiresPrecision string
  | RequiresScale string
  | IndexNameTooLong
  | IndexAlreadyExists string
  | AtoiError
  | ExternalError
  | RuntimePanic

section \<open>Users and privileges\<close>

text \<open>
  Modelled from the spec: the type \<open>shared.PrivilegeAction\<close> is declared outside the
  catalog source; the specification gives its closed set of values
  (select, insert, update, delete, create, drop, alter, grant, revoke, all). The catalog
  source names only \<open>shared.PRIV_ALL\<close>.
\<close>

datatype PrivilegeAction =
    PRIV_SELECT | PRIV_INSERT | PRIV_UPDATE | PRIV_DELETE | PRIV_CREATE
  | PRIV_DROP | PRIV_ALTER | PRIV_GRANT | PRIV_REVOKE | PRIV_ALL

record Privilege =
  DatabaseName :: string
  TableName :: string
  PrivilegeActions :: "PrivilegeAction list"

record User =
  Username :: string
  Password :: string
  Privileges :: "Privilege list"

subsection \<open>HasPrivilege\<close>

text \<open>
  The innermost loop of \<open>HasPrivilege\<close>, \<open>for _, pa := range p.PrivilegeActions\<close>:
  it appends one \<open>true\<close> to \<open>has\<close> for every stored action that equals the requested
  action or is \<open>PRIV_ALL\<close>. The four branches of the source carry this same loop.
\<close>

fun has_actions :: "PrivilegeAction list \<Rightarrow> PrivilegeAction \<Rightarrow> bool list \<Rightarrow> bool list" where
  "has_actions [] a has = has"
| "has_actions (pa # pas) a has =
     has_actions pas a
       (if pa = a then has @ [True]
        else if pa = PRIV_ALL then has @ [True]
        else has)"

text \<open>The body of \<open>for _, a := range actions\<close> for one privilege \<open>p\<close>.\<close>

definition has_step :: "string \<Rightarrow> string \<Rightarrow> Privilege \<Rightarrow> PrivilegeAction \<Rightarrow> bool list \<Rightarrow> bool list" where
  "has_step db tbl p a has =
     (if DatabaseName p = db \<and> TableName p = tbl then has_actions (PrivilegeActions p) a has
      else if DatabaseName p = ''*'' \<and> TableName p = ''*'' then has_actions (PrivilegeActions p) a has
      else if DatabaseName p = db \<and> TableName p = ''*'' then has_actions (PrivilegeActions p) a has
      else if DatabaseName p = ''*'' \<and> TableName p = tbl then has_actions (PrivilegeActions p) a has
      else has)"

fun has_requested :: "string \<Rightarrow> string \<Rightarrow> Privilege \<Rightarrow> PrivilegeAction list \<Rightarrow> bool list \<Rightarrow> bool list" where
  "has_requested db tbl p [] has = has"
| "has_requested db tbl p (a # as) has = has_requested db tbl p as (has_step db tbl p a has)"

fun has_privileges :: "string \<Rightarrow> string \<Rightarrow> Privilege list \<Rightarrow> PrivilegeAction list \<Rightarrow> bool list \<Rightarrow> bool list" where
  "has_privileges db tbl [] actions has = has"
| "has_privileges db tbl (p # ps) actions has =
     has_privileges db tbl ps actions (has_requested db tbl p actions has)"

definition HasPrivilege :: "User \<Rightarrow> string \<Rightarrow> string \<Rightarrow> PrivilegeAction list \<Rightarrow> bool" where
  "HasPrivilege u db tbl actions =
     (let has = has_privileges db tbl (Privileges u) actions []
      in if length has = length actions then True else False)"

text \<open>
  The privilege match table of the specification: a stored pair matches a request when
  it is exact/exact, \<open>*\<close>/\<open>*\<close>, exact/\<open>*\<close> or \<open>*\<close>/exact.
\<close>

definition priv_matches :: "Privilege \<Rightarrow> string \<Rightarrow> string \<Rightarrow> bool" where
  "priv_matches p db tbl =
     ((DatabaseName p = db \<and> TableName p = tbl)
      \<or> (DatabaseName p = ''*'' \<and> TableName p = ''*'')
      \<or> (DatabaseName p = db \<and> TableName p = ''*'')
      \<or> (DatabaseName p = ''*'' \<and> TableName p = tbl))"

text \<open>
  The specification's reading of \<open>HasPrivilege\<close>: every requested action is covered by
  some matching privilege that lists the action or \<open>all\<close>.
\<close>

definition HasPrivilege_spec :: "User \<Rightarrow> string \<Rightarrow> string \<Rightarrow> PrivilegeAction list \<Rightarrow> bool" where
  "HasPrivilege_spec u db tbl actions =
     list_all (\<lambda>a. list_ex (\<lambda>p. priv_matches p db tbl
                      \<and> (a \<in> set (PrivilegeActions p) \<or> PRIV_ALL \<in> set (PrivilegeActions p)))
                 (Privileges u)) actions"

subsection \<open>The catalog's user table\<close>

text \<open>
  Of the catalog only the user map and the users file matter to grants and revokes. The
  file is its byte content. \<open>gob_users\<close> is the gob encoder of the Go library applied to
  the user map, and \<open>seek_fails\<close> says whether \<open>Seek(0, 0)\<close> on the file fails: both are
  taken from the environment.
\<close>

record Catalog =
  Users :: "string \<rightharpoonup> User"
  UsersFile :: "nat list"

record users_io =
  seek_fails :: bool
  gob_users :: "(string \<rightharpoonup> User) \<Rightarrow> error + nat list"

text \<open>
  \<open>EncodeUsersToFile\<close> rewinds the file and writes the encoded map over its content
  from offset 0; the file is not truncated, so a tail of the old content stays when the
  new encoding is shorter.
\<close>

definition EncodeUsersToFile :: "users_io \<Rightarrow> Catalog \<Rightarrow> error + Catalog" where
  "EncodeUsersToFile io cat =
     (if seek_fails io then Inl ExternalError
      else case gob_users io (Users cat) of
             Inl e \<Rightarrow> Inl e
           | Inr bs \<Rightarrow> Inr (cat\<lparr>UsersFile := bs @ drop (length bs) (UsersFile cat)\<rparr>))"

subsection \<open>GrantPrivilegeToUser\<close>

text \<open>The loop \<open>for _, p := range Privileges\<close> that looks for the pair of the request.\<close>

fun privilege_exists :: "Privilege list \<Rightarrow> Privilege \<Rightarrow> bool" where
  "privilege_exists [] priv = False"
| "privilege_exists (p # ps) priv =
     (if DatabaseName p = DatabaseName priv \<and> TableName p = TableName priv then True
      else privilege_exists ps priv)"

text \<open>
  The result is the error or success of the call together with the catalog it leaves
  behind: when \<open>EncodeUsersToFile\<close> fails the in-memory change has already been made.
\<close>

definition GrantPrivilegeToUser :: "users_io \<Rightarrow> Catalog \<Rightarrow> string \<Rightarrow> Privilege \<Rightarrow> error option \<times> Catalog" where
  "GrantPrivilegeToUser io cat username priv =
     (case Users cat username of
        None \<Rightarrow> (Some (UserDoesNotExist username), cat)
      | Some u \<Rightarrow>
          if privilege_exists (Privileges u) priv
          then (Some (PrivilegeAlreadyExists username), cat)
          else
            let cat1 = cat\<lparr>Users := (Users cat)(username \<mapsto> u\<lparr>Privileges := Privileges u @ [priv]\<rparr>)\<rparr>
            in case EncodeUsersToFile io cat1 of
                 Inl e \<Rightarrow> (Some e, cat1)
               | Inr cat2 \<Rightarrow> (None, cat2))"

subsection \<open>RevokePrivilegeFromUser\<close>

text \<open>
  The removal of one action, \<open>for j, b := range l.PrivilegeActions\<close>. The range
  expression is evaluated once, so the loop runs over the indices of the slice as it was
  when the loop began, while the body replaces \<open>l.PrivilegeActions\<close> by
  \<open>append(l.PrivilegeActions[:j], l.PrivilegeActions[j+1:]...)\<close>, which shifts the
  elements of the shared backing array to the left in place and shortens the slice by one.
  The state is the backing array and the current length of the slice; \<open>k\<close> counts the
  iterations left. Slicing \<open>[j+1:]\<close> of a slice shorter than \<open>j+1\<close> panics.
\<close>

fun revoke_action :: "PrivilegeAction \<Rightarrow> nat \<Rightarrow> nat \<Rightarrow> PrivilegeAction list \<times> nat
    \<Rightarrow> error option \<times> PrivilegeAction list \<times> nat" where
  "revoke_action a j 0 st = (None, st)"
| "revoke_action a j (Suc k) (arr, n) =
     (if a = arr ! j
      then if n < j + 1 then (Some RuntimePanic, arr, n)
           else revoke_action a (j + 1) k
                  (take j arr @ take (n - (j + 1)) (drop (j + 1) arr) @ drop (n - 1) arr, n - 1)
      else revoke_action a (j + 1) k (arr, n))"

text \<open>
  \<open>for _, a := range priv.PrivilegeActions\<close> around it, on the action list of \<open>l\<close>.
  The result carries the action list as it stands when the loop ends or panics.
\<close>

fun revoke_actions :: "PrivilegeAction list \<Rightarrow> PrivilegeAction list
    \<Rightarrow> error option \<times> PrivilegeAction list" where
  "revoke_actions [] acts = (None, acts)"
| "revoke_actions (a # as) acts =
     (case revoke_action a 0 (length acts) (acts, length acts) of
        (Some e, arr, n) \<Rightarrow> (Some e, take n arr)
      | (None, arr, n) \<Rightarrow> revoke_actions as (take n arr))"

text \<open>
  The loop \<open>for i, l := range Privileges\<close>. Its test compares the fields of \<open>l\<close> with
  themselves, as the source does; the loop ends at the first entry that passes it.
\<close>

fun revoke_entry :: "Privilege list \<Rightarrow> nat \<Rightarrow> Privilege list \<Rightarrow> Privilege
    \<Rightarrow> error option \<times> Privilege list" where
  "revoke_entry all i [] priv = (None, all)"
| "revoke_entry all i (l # ls) priv =
     (if DatabaseName l = DatabaseName l \<and> TableName l = TableName l
      then if length (PrivilegeActions l) = length (PrivilegeActions priv)
           then (None, take i all @ drop (i + 1) all)
           else case revoke_actions (PrivilegeActions priv) (PrivilegeActions l) of
                  (e, acts) \<Rightarrow> (e, all[i := l\<lparr>PrivilegeActions := acts\<rparr>])
      else revoke_entry all (i + 1) ls priv)"

text \<open>
  The result is the error or success of the call together with the catalog it leaves
  behind. The request's action list is taken not to share storage with a stored one.
\<close>

definition RevokePrivilegeFromUser :: "users_io \<Rightarrow> Catalog \<Rightarrow> string \<Rightarrow> Privilege \<Rightarrow> error option \<times> Catalog" where
  "RevokePrivilegeFromUser io cat username priv =
     (case Users cat username of
        None \<Rightarrow> (Some (UserDoesNotExist username), cat)
      | Some u \<Rightarrow>
          if privilege_exists (Privileges u) priv
          then case revoke_entry (Privileges u) 0 (Privileges u) priv of
                 (re, ps) \<Rightarrow>
                   let cat1 = cat\<lparr>Users := (Users cat)(username \<mapsto> u\<lparr>Privileges := ps\<rparr>)\<rparr>
                   in (case re of
                         Some e \<Rightarrow> (Some e, cat1)
                       | None \<Rightarrow>
                           (case EncodeUsersToFile io cat1 of
                              Inl e \<Rightarrow> (Some e, cat1)
                            | Inr cat2 \<Rightarrow> (None, cat2)))
          else (Some (PrivilegeDoesNotExist username), cat))"

section \<open>Go library functions used by the table store\<close>

text \<open>
  Strings are byte strings, as Go's are. The functions of this section model the Go
  standard library calls that the table store makes on them.
\<close>

type_synonym bytes = "nat list"

text \<open>\<open>strings.ToUpper\<close> on ASCII letters; other bytes are left as they are.\<close>

definition upper_char :: "char \<Rightarrow> char" where
  "upper_char c =
     (case map_of (zip ''abcdefghijklmnopqrstuvwxyz'' ''ABCDEFGHIJKLMNOPQRSTUVWXYZ'') c of
        Some u \<Rightarrow> u
      | None \<Rightarrow> c)"

definition ToUpper :: "string \<Rightarrow> string" where
  "ToUpper s = map upper_char s"

text \<open>\<open>strings.TrimPrefix\<close> and \<open>strings.TrimSuffix\<close>.\<close>

definition TrimPrefix :: "string \<Rightarrow> string \<Rightarrow> string" where
  "TrimPrefix s pre = (if take (length pre) s = pre then drop (length pre) s else s)"

definition TrimSuffix :: "string \<Rightarrow> string \<Rightarrow> string" where
  "TrimSuffix s suf =
     (if length suf \<le> length s \<and> drop (length s - length suf) s = suf
      then take (length s - length suf) s else s)"

text \<open>\<open>strings.Split(s, ".")\<close>: the pieces of \<open>s\<close> between the dots.\<close>

fun split_dot :: "string \<Rightarrow> string \<Rightarrow> string list" where
  "split_dot [] cur = [cur]"
| "split_dot (c # cs) cur =
     (if c = CHR ''.'' then cur # split_dot cs [] else split_dot cs (cur @ [c]))"

text \<open>Decimal digits, for \<open>fmt.Sprintf("%d", n)\<close> and \<open>strconv.Atoi\<close>.\<close>

definition digit_char :: "nat \<Rightarrow> char" where
  "digit_char d = ''0123456789'' ! d"

definition digit_of :: "char \<Rightarrow> nat option" where
  "digit_of c =
     (let k = (of_char c :: nat) in if 48 \<le> k \<and> k \<le> 57 then Some (k - 48) else None)"

function show_nat :: "nat \<Rightarrow> string" where
  "show_nat n = (if n < 10 then [digit_char n] else show_nat (n div 10) @ [digit_char (n mod 10)])"
  by pat_completeness auto
termination
  by (relation "measure id") auto

declare show_nat.simps [simp del]

definition show_int :: "int \<Rightarrow> string" where
  "show_int i = (if i < 0 then CHR ''-'' # show_nat (nat (- i)) else show_nat (nat i))"

fun parse_digits :: "string \<Rightarrow> nat \<Rightarrow> nat option" where
  "parse_digits [] acc = Some acc"
| "parse_digits (c # cs) acc =
     (case digit_of c of None \<Rightarrow> None | Some d \<Rightarrow> parse_digits cs (acc * 10 + d))"

text \<open>
  \<open>strconv.ParseInt(s, 10, 64)\<close>, which is also \<open>strconv.Atoi\<close> on a 64-bit platform:
  an optional sign and at least one decimal digit, the value within the range of
  \<open>int64\<close>; anything else is an error.
\<close>

definition ParseInt :: "string \<Rightarrow> int option" where
  "ParseInt s =
     (let (neg, ds) = (case s of
                         c # cs \<Rightarrow> if c = CHR ''-'' then (True, cs)
                                   else if c = CHR ''+'' then (False, cs) else (False, s)
                       | [] \<Rightarrow> (False, s))
      in if ds = [] then None
         else case parse_digits ds 0 of
                None \<Rightarrow> None
              | Some n \<Rightarrow>
                  let i = (if neg then - int n else int n)
                  in if - (2 ^ 63) \<le> i \<and> i < 2 ^ 63 then Some i else None)"

text \<open>Arithmetic of Go's 64-bit \<open>int\<close> wraps around.\<close>

definition wrap64 :: "int \<Rightarrow> int" where
  "wrap64 i = (i + 2 ^ 63) mod 2 ^ 64 - 2 ^ 63"

text \<open>
  \<open>hex.DecodeString\<close>: two hexadecimal digits per byte. On an odd length or a
  character that is no hexadecimal digit it returns an error together with the bytes
  decoded before the error.
\<close>

definition hex_digit :: "char \<Rightarrow> nat option" where
  "hex_digit c =
     (let k = (of_char c :: nat)
      in if 48 \<le> k \<and> k \<le> 57 then Some (k - 48)
         else if 97 \<le> k \<and> k \<le> 102 then Some (k - 87)
         else if 65 \<le> k \<and> k \<le> 70 then Some (k - 55)
         else None)"

fun hex_decode :: "string \<Rightarrow> bytes \<Rightarrow> bool \<times> bytes" where
  "hex_decode [] acc = (True, acc)"
| "hex_decode [c] acc = (False, acc)"
| "hex_decode (c # d # cs) acc =
     (case hex_digit c of
        None \<Rightarrow> (False, acc)
      | Some h \<Rightarrow> (case hex_digit d of
                    None \<Rightarrow> (False, acc)
                  | Some l \<Rightarrow> hex_decode cs (acc @ [h * 16 + l])))"

section \<open>Row values\<close>

text \<open>
  A row is a Go \<open>map[string]interface{}\<close>. The dynamic types that reach the table store
  are \<open>nil\<close>, \<open>string\<close>, \<open>bool\<close>, \<open>int\<close>, \<open>uint64\<close>, \<open>float64\<close>, \<open>[]byte\<close> and
  \<open>time.Time\<close>. A \<open>float64\<close> is its IEEE 754 bit pattern; a \<open>time.Time\<close> is kept as an
  instant in nanoseconds. A Go map is kept as a list of pairs with distinct keys; a
  \<open>range\<close> over the map visits the pairs in the order of the list, which stands for the
  order that the Go run time happens to choose.
\<close>

datatype val =
    VNil
  | VString string
  | VBool bool
  | VInt int
  | VUint64 nat
  | VFloat64 "64 word"
  | VBytes bytes
  | VTime int

type_synonym row = "(string \<times> val) list"

definition row_get :: "row \<Rightarrow> string \<Rightarrow> val" where
  \<comment> \<open>\<open>row[col]\<close>: the nil interface for a missing key\<close>
  "row_get r col = (case map_of r col of None \<Rightarrow> VNil | Some v \<Rightarrow> v)"

definition row_has :: "row \<Rightarrow> string \<Rightarrow> bool" where
  \<comment> \<open>the \<open>ok\<close> of \<open>_, ok := row[col]\<close>\<close>
  "row_has r col = (map_of r col \<noteq> None)"

fun row_set :: "row \<Rightarrow> string \<Rightarrow> val \<Rightarrow> row" where
  "row_set [] col v = [(col, v)]"
| "row_set ((k, w) # r) col v = (if k = col then (k, v) # r else (k, w) # row_set r col v)"

text \<open>
  Comparison of two interface values with \<open>==\<close>: values of different dynamic type are
  unequal, two byte slices cannot be compared and make the run time panic, floats compare
  as IEEE numbers.
\<close>

definition float64_is_nan :: "64 word \<Rightarrow> bool" where
  "float64_is_nan w = (and w 0x7FF0000000000000 = 0x7FF0000000000000 \<and> and w 0x000FFFFFFFFFFFFF \<noteq> 0)"

definition float64_eq :: "64 word \<Rightarrow> 64 word \<Rightarrow> bool" where
  "float64_eq a b =
     (if float64_is_nan a \<or> float64_is_nan b then False
      else if and a 0x7FFFFFFFFFFFFFFF = 0 \<and> and b 0x7FFFFFFFFFFFFFFF = 0 then True
      else a = b)"

fun iface_eq :: "val \<Rightarrow> val \<Rightarrow> error + bool" where
  "iface_eq (VBytes a) (VBytes b) = Inl RuntimePanic"
| "iface_eq (VFloat64 a) (VFloat64 b) = Inr (float64_eq a b)"
| "iface_eq a b = Inr (a = b)"

text \<open>
  \<open>fmt.Sprintf("%v", v)\<close>. The text of a float and of a time comes from the Go library
  and is taken from the environment.
\<close>

fun join_space :: "string list \<Rightarrow> string" where
  "join_space [] = []"
| "join_space [s] = s"
| "join_space (s # t # ss) = s @ '' '' @ join_space (t # ss)"

definition sprint_v :: "(64 word \<Rightarrow> string) \<Rightarrow> (int \<Rightarrow> string) \<Rightarrow> val \<Rightarrow> string" where
  "sprint_v fmt_float fmt_time v =
     (case v of
        VNil \<Rightarrow> ''<nil>''
      | VString s \<Rightarrow> s
      | VBool b \<Rightarrow> (if b then ''true'' else ''false'')
      | VInt i \<Rightarrow> show_int i
      | VUint64 n \<Rightarrow> show_nat n
      | VFloat64 w \<Rightarrow> fmt_float w
      | VBytes bs \<Rightarrow> ''['' @ join_space (map show_nat bs) @ '']''
      | VTime t \<Rightarrow> fmt_time t)"

section \<open>The table store\<close>

subsection \<open>Data model\<close>

text \<open>
  The sentinel defaults of package \<open>shared\<close> (\<open>*shared.GenUUID\<close>, \<open>*shared.SysDate\<close>,
  \<open>*shared.SysTime\<close>, \<open>*shared.SysTimestamp\<close>) and a literal default.
\<close>

datatype default_value = GenUUID | SysDate | SysTime | SysTimestamp | Literal val

record Reference =
  TableName :: string
  ColumnName :: string

record ColumnDefinition =
  DataType :: string
  NotNull :: bool
  Sequence :: bool
  Unique :: bool
  Length :: int
  Scale :: int
  Precision :: int
  References :: "Reference option"
  Default :: "default_value option"
  Check :: "val option"

type_synonym TableSchema = "(string \<times> ColumnDefinition) list"

text \<open>
  Modelled from the spec: the B-tree of package \<open>btree\<close> is not part of the catalog
  source. By the specification it maps a key to the values put under it: \<open>Put\<close> adds a
  value under a key, \<open>Get\<close> returns the entry of a key or null, \<open>Remove\<close> removes a
  single value from the entry of a key. Keys and values are byte strings.
\<close>

type_synonym BTree = "string \<rightharpoonup> string list"

definition btree_Get :: "BTree \<Rightarrow> string \<Rightarrow> string list option" where
  "btree_Get bt k = bt k"

definition btree_Put :: "BTree \<Rightarrow> string \<Rightarrow> string \<Rightarrow> BTree" where
  "btree_Put bt k v = bt(k \<mapsto> (case bt k of None \<Rightarrow> [v] | Some vs \<Rightarrow> vs @ [v]))"

definition btree_Remove :: "BTree \<Rightarrow> string \<Rightarrow> string \<Rightarrow> BTree" where
  "btree_Remove bt k v = (case bt k of None \<Rightarrow> bt | Some vs \<Rightarrow> bt(k \<mapsto> remove1 v vs))"

text \<open>
  Modelled from the spec: the pager of package \<open>btree\<close> is not part of the catalog
  source. By the specification \<open>Write\<close> appends a page and returns its id, \<open>WriteTo\<close>
  overwrites a page, \<open>GetPage\<close> reads one, \<open>DeletePage\<close> marks one free, and
  \<open>GetDeletedPages\<close> lists the pages marked free. Ids count from 0.
\<close>

record Pager =
  pages :: "bytes list"
  deleted :: "int list"

definition pager_Write :: "Pager \<Rightarrow> bytes \<Rightarrow> int \<times> Pager" where
  "pager_Write pg b = (int (length (pages pg)), pg\<lparr>pages := pages pg @ [b]\<rparr>)"

definition pager_GetPage :: "Pager \<Rightarrow> int \<Rightarrow> bytes option" where
  "pager_GetPage pg i =
     (if 0 \<le> i \<and> i < int (length (pages pg)) then Some (pages pg ! nat i) else None)"

definition pager_WriteTo :: "Pager \<Rightarrow> int \<Rightarrow> bytes \<Rightarrow> Pager option" where
  "pager_WriteTo pg i b =
     (if 0 \<le> i \<and> i < int (length (pages pg)) then Some (pg\<lparr>pages := (pages pg)[nat i := b]\<rparr>)
      else None)"

definition pager_DeletePage :: "Pager \<Rightarrow> int \<Rightarrow> Pager option" where
  "pager_DeletePage pg i =
     (if 0 \<le> i \<and> i < int (length (pages pg)) then Some (pg\<lparr>deleted := deleted pg @ [i]\<rparr>)
      else None)"

text \<open>
  The sequence file \<open><table>.seq\<close>: its content and the offset of the open handle.
  \<open>Write\<close> writes at the offset and advances it (a gap before the offset reads as zero
  bytes), \<open>Truncate(0)\<close> empties the file and leaves the offset, \<open>Seek(0, SEEK_SET)\<close>
  rewinds.
\<close>

record SeqFile =
  content :: string
  offset :: nat

definition file_Write :: "SeqFile \<Rightarrow> string \<Rightarrow> SeqFile" where
  "file_Write f d =
     \<lparr>content = take (offset f) (content f) @ replicate (offset f - length (content f)) (CHR 0x00)
                 @ d @ drop (offset f + length d) (content f),
      offset = offset f + length d\<rparr>"

definition file_Truncate0 :: "SeqFile \<Rightarrow> SeqFile" where
  "file_Truncate0 f = f\<lparr>content := []\<rparr>"

definition file_Seek0 :: "SeqFile \<Rightarrow> SeqFile" where
  "file_Seek0 f = f\<lparr>offset := 0\<rparr>"

record Index =
  Name :: string
  Columns :: "string list"
  Unique :: bool
  btree :: BTree

record Table =
  Name :: string
  Indexes :: "(string \<times> Index) list"
  Rows :: Pager
  TableSchema :: TableSchema
  Directory :: string
  SequenceFile :: SeqFile
  Compress :: bool
  Encrypt :: bool
  HashedKey :: bytes
  Nonce :: bytes

record Database =
  Name :: string
  Tables :: "string \<rightharpoonup> Table"
  Directory :: string

text \<open>
  What the table store takes from Go libraries and from package \<open>shared\<close>, none of
  which is part of the catalog source: the gob codec of rows, zstd, the ChaCha20 key
  stream (byte \<open>i\<close> of the stream for a key and a nonce), SHA-256, the UUID generator
  and parser, the clock, the date and time checks of \<open>shared\<close>, and the text that
  \<open>fmt\<close> gives to floats and times. The generator and the clock are asked once for each
  column they fill.
\<close>

record env =
  gob_encode :: "row \<Rightarrow> error + bytes"
  gob_decode :: "bytes \<Rightarrow> error + row"
  zstd_compress :: "bytes \<Rightarrow> error + bytes"
  zstd_decompress :: "bytes \<Rightarrow> error + bytes"
  chacha20_stream :: "bytes \<Rightarrow> bytes \<Rightarrow> nat \<Rightarrow> nat"
  sha256_sum :: "bytes \<Rightarrow> bytes"
  uuid_new :: "string \<Rightarrow> string"
  uuid_parse_ok :: "string \<Rightarrow> bool"
  time_now :: "string \<Rightarrow> int"
  IsValidDateTimeFormat :: "string \<Rightarrow> bool"
  IsValidDateFormat :: "string \<Rightarrow> bool"
  IsValidTimeFormat :: "string \<Rightarrow> bool"
  StringToGOTime :: "string \<Rightarrow> error + int"
  IsValidDataType :: "string \<Rightarrow> bool"
  fmt_float_14g :: "64 word \<Rightarrow> string"
  fmt_float_v :: "64 word \<Rightarrow> string"
  fmt_time_v :: "int \<Rightarrow> string"
  path_separator :: string

definition sprintv :: "env \<Rightarrow> val \<Rightarrow> string" where
  "sprintv e v = sprint_v (fmt_float_v e) (fmt_time_v e) v"

text \<open>The conversions \<open>[]byte(s)\<close> and \<open>string(b)\<close>.\<close>

definition bytes_of :: "string \<Rightarrow> bytes" where
  "bytes_of s = map of_char s"

definition string_of :: "bytes \<Rightarrow> string" where
  "string_of b = map char_of b"

subsection \<open>Codec\<close>

definition EncodeRow :: "env \<Rightarrow> row \<Rightarrow> error + bytes" where
  "EncodeRow e n = gob_encode e n"

definition decodeRow :: "env \<Rightarrow> bytes \<Rightarrow> error + row" where
  "decodeRow e b = gob_decode e b"

definition Compress :: "env \<Rightarrow> bytes \<Rightarrow> error + bytes" where
  "Compress e r = zstd_compress e r"

definition Decompress :: "env \<Rightarrow> bytes \<Rightarrow> error + bytes" where
  "Decompress e r = zstd_decompress e r"

text \<open>
  \<open>XORKeyStream(dst, src)\<close> of a fresh ChaCha20 cipher: byte \<open>i\<close> of the output is byte
  \<open>i\<close> of the input xor byte \<open>i\<close> of the key stream. \<open>NewUnauthenticatedCipher\<close> fails
  on a key that is not 32 bytes or a nonce that is not 12 bytes long.
\<close>

definition XORKeyStream :: "env \<Rightarrow> bytes \<Rightarrow> bytes \<Rightarrow> bytes \<Rightarrow> bytes" where
  "XORKeyStream e key nonce src =
     map (\<lambda>i. xor (src ! i) (chacha20_stream e key nonce i)) [0..<length src]"

definition Encrypt :: "env \<Rightarrow> bytes \<Rightarrow> bytes \<Rightarrow> bytes \<Rightarrow> error + bytes" where
  "Encrypt e key nonce r =
     (if length key \<noteq> 32 \<or> length nonce \<noteq> 12 then Inl ExternalError
      else Inr (XORKeyStream e key nonce r))"

definition Decrypt :: "env \<Rightarrow> bytes \<Rightarrow> bytes \<Rightarrow> bytes \<Rightarrow> error + bytes" where
  "Decrypt e key nonce cipherRow =
     (if length key \<noteq> 32 \<or> length nonce \<noteq> 12 then Inl ExternalError
      else Inr (XORKeyStream e key nonce cipherRow))"

subsection \<open>Sequence\<close>

text \<open>
  \<open>IncrementSequence\<close>. The content is read by name with \<open>os.ReadFile\<close>; the writes go
  through the open handle. The results of \<open>Write\<close>, \<open>Truncate\<close> and \<open>Seek\<close> are not
  looked at by the source.
\<close>

definition IncrementSequence :: "Table \<Rightarrow> (error + int) \<times> Table" where
  "IncrementSequence tbl =
     (let d = content (SequenceFile tbl)
      in if d = [] then (Inr 1, tbl\<lparr>SequenceFile := file_Write (SequenceFile tbl) ''1''\<rparr>)
         else case ParseInt d of
                None \<Rightarrow> (Inl AtoiError, tbl)
              | Some i \<Rightarrow>
                  let j = wrap64 (i + 1)
                  in (Inr j, tbl\<lparr>SequenceFile :=
                        file_Write (file_Seek0 (file_Truncate0 (SequenceFile tbl))) (show_int j)\<rparr>))"

subsection \<open>Index lookup\<close>

fun check_indexed :: "(string \<times> Index) list \<Rightarrow> string \<Rightarrow> bool \<Rightarrow> Index option" where
  "check_indexed [] column unique = None"
| "check_indexed ((n, idx) # rest) column unique =
     (if column \<in> set (Columns idx) \<and> Index.Unique idx = unique then Some idx
      else check_indexed rest column unique)"

definition CheckIndexedColumn :: "Table \<Rightarrow> string \<Rightarrow> bool \<Rightarrow> Index option" where
  "CheckIndexedColumn tbl column unique = check_indexed (Indexes tbl) column unique"

subsection \<open>insert: the schema check of one column\<close>

text \<open>
  The body of the loop over the column definitions either returns an error, or goes on
  to the next column with \<open>continue\<close>, or falls out of the type switch to the uniqueness
  and foreign-key checks. The row map is changed in place and the sequence file may have
  been advanced, so each outcome comes with the row and the table as they then are.
\<close>

datatype flow = Return error | Continue | Proceed

type_synonym step = "flow \<times> row \<times> Table"

definition check_TEXT :: "string \<Rightarrow> row \<Rightarrow> Table \<Rightarrow> step" where
  "check_TEXT colName r tbl =
     (case row_get r colName of
        VString s \<Rightarrow> (Proceed, r, tbl)
      | _ \<Rightarrow> (Return (NotAString colName), r, tbl))"

definition check_BOOL :: "string \<Rightarrow> row \<Rightarrow> Table \<Rightarrow> step" where
  "check_BOOL colName r tbl =
     (case row_get r colName of
        VBool b \<Rightarrow> (Proceed, r, tbl)
      | _ \<Rightarrow> (Return (NotABoolean colName), r, tbl))"

text \<open>\<open>row[colName], err = hex.DecodeString(...)\<close> stores the bytes also when it fails.\<close>

definition decode_hex_column :: "string \<Rightarrow> string \<Rightarrow> row \<Rightarrow> Table \<Rightarrow> step" where
  "decode_hex_column colName s r tbl =
     (case hex_decode s [] of
        (ok, bs) \<Rightarrow>
          if ok then (Proceed, row_set r colName (VBytes bs), tbl)
          else (Return (NotAValidBinary colName), row_set r colName (VBytes bs), tbl))"

definition check_BLOB :: "string \<Rightarrow> row \<Rightarrow> Table \<Rightarrow> step" where
  "check_BLOB colName r tbl =
     (case row_get r colName of
        VString s \<Rightarrow> decode_hex_column colName s r tbl
      | _ \<Rightarrow> (Return (NotAString colName), r, tbl))"

definition check_BINARY :: "string \<Rightarrow> ColumnDefinition \<Rightarrow> row \<Rightarrow> Table \<Rightarrow> step" where
  "check_BINARY colName colDef r tbl =
     (case row_get r colName of
        VString s \<Rightarrow>
          if int (length s) > Length colDef then (Return (ColumnTooLong colName), r, tbl)
          else decode_hex_column colName s r tbl
      | _ \<Rightarrow> (Return (NotAString colName), r, tbl))"

text \<open>
  The UUID case. A not-null column returns at once. Otherwise a \<open>GenUUID\<close> default
  fills the column, any other default skips the column, and then
  \<open>uuid.Parse(row[colName].(string))\<close> runs, whose type assertion panics on a value
  that is no string.
\<close>

definition check_UUID :: "env \<Rightarrow> string \<Rightarrow> ColumnDefinition \<Rightarrow> row \<Rightarrow> Table \<Rightarrow> step" where
  "check_UUID e colName colDef r tbl =
     (if NotNull colDef then (Return (NotAString colName), r, tbl)
      else
        let parse = (\<lambda>r1. case row_get r1 colName of
                       VString s \<Rightarrow> if uuid_parse_ok e s then (Proceed, r1, tbl)
                                     else (Return (NotAValidUUID s), r1, tbl)
                     | _ \<Rightarrow> (Return RuntimePanic, r1, tbl))
        in case Default colDef of
             None \<Rightarrow> parse r
           | Some GenUUID \<Rightarrow> parse (row_set r colName (VString (uuid_new e colName)))
           | Some _ \<Rightarrow> (Continue, r, tbl))"

text \<open>
  The DATETIME and TIMESTAMP case. The string is cut with \<open>original[:10]\<close>,
  \<open>original[11:]\<close>, \<open>timePart[:2]\<close>, \<open>timePart[2:4]\<close> and \<open>timePart[4:]\<close>, which panic
  when the string is too short.
\<close>

definition check_DATETIME :: "env \<Rightarrow> string \<Rightarrow> ColumnDefinition \<Rightarrow> row \<Rightarrow> Table \<Rightarrow> step" where
  "check_DATETIME e colName colDef r tbl =
     (case row_get r colName of
        VString s0 \<Rightarrow>
          let original = TrimSuffix (TrimPrefix s0 [CHR 0x27]) [CHR 0x27];
              r1 = row_set r colName (VString original)
          in if length original < 11 then (Return RuntimePanic, r1, tbl)
             else
               let datePart = take 10 original;
                   timePart = drop 11 original
               in if length timePart < 4 then (Return RuntimePanic, r1, tbl)
                  else
                    let hours = take 2 timePart;
                        minutes = take 2 (drop 2 timePart);
                        seconds = drop 4 timePart;
                        s = datePart @ '' '' @ hours @ '':'' @ minutes @ '':'' @ seconds;
                        r2 = row_set r1 colName (VString s)
                    in if \<not> IsValidDateTimeFormat e s then (Return (NotAValidDatetime colName), r2, tbl)
                       else case StringToGOTime e s of
                              Inl err \<Rightarrow> (Return (NotAValidDatetime colName), r2, tbl)
                            | Inr t \<Rightarrow> (Proceed, row_set r2 colName (VTime t), tbl)
      | _ \<Rightarrow>
          if NotNull colDef then (Return (NotAString colName), r, tbl)
          else case Default colDef of
                 None \<Rightarrow> (Continue, r, tbl)
               | Some SysDate \<Rightarrow> (Continue, row_set r colName (VTime (time_now e colName)), tbl)
               | Some SysTime \<Rightarrow> (Continue, row_set r colName (VTime (time_now e colName)), tbl)
               | Some SysTimestamp \<Rightarrow> (Continue, row_set r colName (VTime (time_now e colName)), tbl)
               | Some _ \<Rightarrow> (Continue, r, tbl))"

definition check_DATE :: "env \<Rightarrow> string \<Rightarrow> ColumnDefinition \<Rightarrow> row \<Rightarrow> Table \<Rightarrow> step" where
  "check_DATE e colName colDef r tbl =
     (case row_get r colName of
        VString s0 \<Rightarrow>
          let s = TrimSuffix (TrimPrefix s0 [CHR 0x27]) [CHR 0x27]
          in if \<not> IsValidDateFormat e s then (Return (NotAValidDate colName), r, tbl)
             else case StringToGOTime e s of
                    Inl err \<Rightarrow> (Return (NotAValidDate colName), r, tbl)
                  | Inr t \<Rightarrow> (Proceed, row_set r colName (VTime t), tbl)
      | _ \<Rightarrow>
          if NotNull colDef then (Return (NotAString colName), r, tbl)
          else (Continue, r, tbl))"

definition check_TIME :: "env \<Rightarrow> string \<Rightarrow> ColumnDefinition \<Rightarrow> row \<Rightarrow> Table \<Rightarrow> step" where
  "check_TIME e colName colDef r tbl =
     (case row_get r colName of
        VString s \<Rightarrow>
          if \<not> IsValidTimeFormat e s then (Return (NotAValidTime colName), r, tbl)
          else (case StringToGOTime e s of
                  Inl err \<Rightarrow> (Return (NotAValidDate colName), r, tbl)
                | Inr t \<Rightarrow> (Proceed, row_set r colName (VTime t), tbl))
      | _ \<Rightarrow>
          if NotNull colDef then (Return (NotAString colName), r, tbl)
          else (Continue, r, tbl))"

definition check_CHAR :: "string \<Rightarrow> ColumnDefinition \<Rightarrow> row \<Rightarrow> Table \<Rightarrow> step" where
  "check_CHAR colName colDef r tbl =
     (case row_get r colName of
        VString s \<Rightarrow>
          if int (length (TrimSuffix (TrimPrefix s [CHR 0x27]) [CHR 0x27])) > Length colDef
          then (Return (ColumnTooLong colName), r, tbl)
          else (Proceed, r, tbl)
      | VNil \<Rightarrow> if NotNull colDef then (Proceed, r, tbl) else (Continue, r, tbl)
      | _ \<Rightarrow> if NotNull colDef then (Return (NotAString colName), r, tbl) else (Continue, r, tbl))"

text \<open>
  The numeric case. A not-null column holding nil passes the first test and then panics
  in \<open>row[colName].(float64)\<close>.
\<close>

definition check_NUMERIC :: "env \<Rightarrow> string \<Rightarrow> ColumnDefinition \<Rightarrow> row \<Rightarrow> Table \<Rightarrow> step" where
  "check_NUMERIC e colName colDef r tbl =
     (case row_get r colName of
        VFloat64 w \<Rightarrow>
          let parts = split_dot (fmt_float_14g e w) []
          in if length parts > 1
             then
               let scale = int (length (parts ! 1));
                   precision = int (length (parts ! 0)) + int (length (parts ! 1))
               in if Scale colDef > 0 \<and> scale > Scale colDef
                  then (Return (TooManyDigits colName), r, tbl)
                  else if Precision colDef > 0 \<and> precision > Precision colDef
                  then (Return (ColumnTooLarge colName), r, tbl)
                  else (Proceed, r, tbl)
             else (Proceed, r, tbl)
      | VNil \<Rightarrow> if NotNull colDef then (Return RuntimePanic, r, tbl) else (Continue, r, tbl)
      | _ \<Rightarrow> if NotNull colDef then (Return (NotAFloat colName), r, tbl) else (Continue, r, tbl))"

text \<open>The range checks that end the integer case.\<close>

definition check_int_range :: "string \<Rightarrow> ColumnDefinition \<Rightarrow> int \<Rightarrow> row \<Rightarrow> Table \<Rightarrow> step" where
  "check_int_range colName colDef i r tbl =
     (if (ToUpper (DataType colDef) = ''INT'' \<or> ToUpper (DataType colDef) = ''INTEGER'')
         \<and> i > 2147483647
      then (Return (TooLargeForInt colName), r, tbl)
      else if ToUpper (DataType colDef) = ''SMALLINT'' \<and> i > 32767
      then (Return (TooLargeForSmallint colName), r, tbl)
      else (Proceed, r, tbl))"

definition check_int_value :: "string \<Rightarrow> ColumnDefinition \<Rightarrow> row \<Rightarrow> Table \<Rightarrow> step" where
  "check_int_value colName colDef r tbl =
     (case row_get r colName of
        VInt i \<Rightarrow> check_int_range colName colDef i r tbl
      | VUint64 n \<Rightarrow>
          check_int_range colName colDef (wrap64 (int n)) (row_set r colName (VInt (wrap64 (int n)))) tbl
      | _ \<Rightarrow> (Return (NotAnInt colName), r, tbl))"

definition check_INT :: "string \<Rightarrow> ColumnDefinition \<Rightarrow> row \<Rightarrow> Table \<Rightarrow> step" where
  "check_INT colName colDef r tbl =
     (if Sequence colDef
      then case CheckIndexedColumn tbl colName True of
             None \<Rightarrow> (Return (SequenceMustBeUnique colName), r, tbl)
           | Some idx \<Rightarrow>
               (case IncrementSequence tbl of
                  (Inl err, tbl1) \<Rightarrow> (Return err, r, tbl1)
                | (Inr seq, tbl1) \<Rightarrow> check_int_value colName colDef (row_set r colName (VInt seq)) tbl1)
      else check_int_value colName colDef r tbl)"

text \<open>The type switch on \<open>strings.ToUpper(colDef.DataType)\<close>.\<close>

definition check_type :: "env \<Rightarrow> string \<Rightarrow> ColumnDefinition \<Rightarrow> row \<Rightarrow> Table \<Rightarrow> step" where
  "check_type e colName colDef r tbl =
     (let dt = ToUpper (DataType colDef)
      in if dt = ''TEXT'' then check_TEXT colName r tbl
         else if dt = ''BOOL'' \<or> dt = ''BOOLEAN'' then check_BOOL colName r tbl
         else if dt = ''BLOB'' then check_BLOB colName r tbl
         else if dt = ''BINARY'' then check_BINARY colName colDef r tbl
         else if dt = ''UUID'' then check_UUID e colName colDef r tbl
         else if dt = ''DATETIME'' \<or> dt = ''TIMESTAMP'' then check_DATETIME e colName colDef r tbl
         else if dt = ''DATE'' then check_DATE e colName colDef r tbl
         else if dt = ''TIME'' then check_TIME e colName colDef r tbl
         else if dt = ''CHARACTER'' \<or> dt = ''CHAR'' then check_CHAR colName colDef r tbl
         else if dt = ''NUMERIC'' \<or> dt = ''DECIMAL'' \<or> dt = ''DEC'' \<or> dt = ''FLOAT''
                 \<or> dt = ''DOUBLE'' \<or> dt = ''REAL'' then check_NUMERIC e colName colDef r tbl
         else if dt = ''INT'' \<or> dt = ''INTEGER'' \<or> dt = ''SMALLINT'' then check_INT colName colDef r tbl
         else (Return (InvalidDataType (DataType colDef)), r, tbl))"

text \<open>
  The uniqueness check. The key looked up is the text of the value itself; a page found
  through the index is decoded as it is stored.
\<close>

fun unique_rows :: "env \<Rightarrow> Table \<Rightarrow> string \<Rightarrow> val \<Rightarrow> string list \<Rightarrow> error option" where
  "unique_rows e tbl colName v [] = None"
| "unique_rows e tbl colName v (rowId # rest) =
     (case ParseInt rowId of
        None \<Rightarrow> Some ProblemGettingUniqueRows
      | Some i \<Rightarrow>
          (case pager_GetPage (Rows tbl) i of
             None \<Rightarrow> Some ProblemGettingUniqueRows
           | Some pg \<Rightarrow>
               (case decodeRow e pg of
                  Inl err \<Rightarrow> Some ProblemGettingUniqueRows
                | Inr decoded \<Rightarrow>
                    (case iface_eq (row_get decoded colName) v of
                       Inl err \<Rightarrow> Some err
                     | Inr True \<Rightarrow> Some (RowAlreadyExists colName (sprintv e v))
                     | Inr False \<Rightarrow> unique_rows e tbl colName v rest))))"

definition check_unique :: "env \<Rightarrow> string \<Rightarrow> ColumnDefinition \<Rightarrow> row \<Rightarrow> Table \<Rightarrow> error option" where
  "check_unique e colName colDef r tbl =
     (if ColumnDefinition.Unique colDef
      then if \<not> Sequence colDef \<and> \<not> row_has r colName then Some (ColumnCannotBeNull colName)
           else case CheckIndexedColumn tbl colName True of
                  None \<Rightarrow> Some (ProblemGettingUniqueRowsFor colName)
                | Some idx \<Rightarrow>
                    (case btree_Get (btree idx) (sprintv e (row_get r colName)) of
                       None \<Rightarrow> None
                     | Some vs \<Rightarrow> unique_rows e tbl colName (row_get r colName) vs)
      else None)"

text \<open>
  The foreign-key check: the referenced table must exist and have a unique index that
  covers a column of the name \<open>colName\<close>.
\<close>

definition check_reference :: "Database \<Rightarrow> string \<Rightarrow> ColumnDefinition \<Rightarrow> row \<Rightarrow> error option" where
  "check_reference db colName colDef r =
     (case References colDef of
        None \<Rightarrow> None
      | Some ref \<Rightarrow>
          if \<not> row_has r colName then Some (ColumnCannotBeNull colName)
          else case Tables db (TableName ref) of
                 None \<Rightarrow> Some (ForeignKeyViolation colName)
               | Some refTbl \<Rightarrow>
                   (case CheckIndexedColumn refTbl colName True of
                      None \<Rightarrow> Some (ForeignKeyViolation colName)
                    | Some idx \<Rightarrow> None))"

text \<open>The whole body of the loop for one column.\<close>

definition check_column :: "env \<Rightarrow> Database \<Rightarrow> string \<Rightarrow> ColumnDefinition \<Rightarrow> row \<Rightarrow> Table \<Rightarrow> step" where
  "check_column e db colName colDef r tbl =
     (if NotNull colDef \<and> \<not> Sequence colDef \<and> \<not> row_has r colName
      then (Return (ColumnCannotBeNull colName), r, tbl)
      else
        let r0 = (if \<not> row_has r colName then row_set r colName VNil else r)
        in case check_type e colName colDef r0 tbl of
             (Proceed, r1, tbl1) \<Rightarrow>
               (case check_unique e colName colDef r1 tbl1 of
                  Some err \<Rightarrow> (Return err, r1, tbl1)
                | None \<Rightarrow>
                    (case check_reference db colName colDef r1 of
                       Some err \<Rightarrow> (Return err, r1, tbl1)
                     | None \<Rightarrow> (Proceed, r1, tbl1)))
           | other \<Rightarrow> other)"

text \<open>\<open>for colName, colDef := range tbl.TableSchema.ColumnDefinitions\<close>.\<close>

fun check_columns :: "env \<Rightarrow> Database \<Rightarrow> TableSchema \<Rightarrow> row \<Rightarrow> Table \<Rightarrow> error option \<times> row \<times> Table" where
  "check_columns e db [] r tbl = (None, r, tbl)"
| "check_columns e db ((colName, colDef) # cols) r tbl =
     (case check_column e db colName colDef r tbl of
        (Return err, r1, tbl1) \<Rightarrow> (Some err, r1, tbl1)
      | (_, r1, tbl1) \<Rightarrow> check_columns e db cols r1 tbl1)"

subsection \<open>insert: writing the row and its index entries\<close>

definition writeRow :: "env \<Rightarrow> Table \<Rightarrow> row \<Rightarrow> (error + int) \<times> Table" where
  "writeRow e tbl r =
     (case EncodeRow e r of
        Inl err \<Rightarrow> (Inl err, tbl)
      | Inr encoded \<Rightarrow>
          (case (if Table.Compress tbl then Compress e encoded else Inr encoded) of
             Inl err \<Rightarrow> (Inl err, tbl)
           | Inr encoded1 \<Rightarrow>
               (case (if Table.Encrypt tbl then Encrypt e (HashedKey tbl) (Nonce tbl) encoded1
                      else Inr encoded1) of
                  Inl err \<Rightarrow> (Inl err, tbl)
                | Inr encoded2 \<Rightarrow>
                    (case pager_Write (Rows tbl) encoded2 of
                       (rowId, pg) \<Rightarrow> (Inr rowId, tbl\<lparr>Rows := pg\<rparr>)))))"

text \<open>
  The key of an index entry at insert time. With compression the value is replaced by
  the compressed bytes of its text; with encryption the value, which must then be a byte
  slice (\<open>val.([]byte)\<close> panics otherwise), is replaced by its cipher text. The key is
  the text that \<open>%v\<close> gives to what results. The variable \<open>val\<close> is assigned to, so the
  next index covering the same column starts from the replaced value.
\<close>

definition index_value :: "env \<Rightarrow> Table \<Rightarrow> val \<Rightarrow> error + val" where
  "index_value e tbl v =
     (case (if Table.Compress tbl
            then (case Compress e (bytes_of (sprintv e v)) of
                    Inl err \<Rightarrow> Inl err
                  | Inr c \<Rightarrow> Inr (VBytes c))
            else Inr v) of
        Inl err \<Rightarrow> Inl err
      | Inr v1 \<Rightarrow>
          if Table.Encrypt tbl
          then (case v1 of
                  VBytes b \<Rightarrow> (case Encrypt e (HashedKey tbl) (Nonce tbl) b of
                                 Inl err \<Rightarrow> Inl err
                               | Inr c \<Rightarrow> Inr (VBytes c))
                | _ \<Rightarrow> Inl RuntimePanic)
          else Inr v1)"

text \<open>\<open>for _, idx := range tbl.Indexes\<close> for one column of the row.\<close>

fun put_indexes :: "env \<Rightarrow> Table \<Rightarrow> int \<Rightarrow> string \<Rightarrow> val \<Rightarrow> (string \<times> Index) list
    \<Rightarrow> error option \<times> val \<times> (string \<times> Index) list" where
  "put_indexes e tbl rowId col v [] = (None, v, [])"
| "put_indexes e tbl rowId col v ((n, idx) # rest) =
     (if col \<in> set (Columns idx)
      then case index_value e tbl v of
             Inl err \<Rightarrow> (Some err, v, (n, idx) # rest)
           | Inr v1 \<Rightarrow>
               (case put_indexes e tbl rowId col v1 rest of
                  (err, v2, rest1) \<Rightarrow>
                    (err, v2, (n, idx\<lparr>btree := btree_Put (btree idx) (sprintv e v1) (show_int rowId)\<rparr>) # rest1))
      else case put_indexes e tbl rowId col v rest of
             (err, v2, rest1) \<Rightarrow> (err, v2, (n, idx) # rest1))"

text \<open>\<open>for col, val := range row\<close> around it.\<close>

fun index_row :: "env \<Rightarrow> Table \<Rightarrow> int \<Rightarrow> row \<Rightarrow> (string \<times> Index) list
    \<Rightarrow> error option \<times> (string \<times> Index) list" where
  "index_row e tbl rowId [] ixs = (None, ixs)"
| "index_row e tbl rowId ((col, v) # rest) ixs =
     (case put_indexes e tbl rowId col v ixs of
        (Some err, v1, ixs1) \<Rightarrow> (Some err, ixs1)
      | (None, v1, ixs1) \<Rightarrow> index_row e tbl rowId rest ixs1)"

subsection \<open>insert and Insert\<close>

text \<open>
  \<open>insert\<close> returns the row id or the error, the row map as the call leaves it, and the
  table as the call leaves it. The database is read only for the foreign-key check,
  which looks at the columns and the unique flag of the indexes of the referenced table.
\<close>

definition insert :: "env \<Rightarrow> Database \<Rightarrow> Table \<Rightarrow> row \<Rightarrow> (error + int) \<times> row \<times> Table" where
  "insert e db tbl r =
     (case check_columns e db (TableSchema tbl) r tbl of
        (Some err, r1, tbl1) \<Rightarrow> (Inl err, r1, tbl1)
      | (None, r1, tbl1) \<Rightarrow>
          (case writeRow e tbl1 r1 of
             (Inl err, tbl2) \<Rightarrow> (Inl err, r1, tbl2)
           | (Inr rowId, tbl2) \<Rightarrow>
               (case index_row e tbl2 rowId r1 (Indexes tbl2) of
                  (Some err, ixs) \<Rightarrow> (Inl err, r1, tbl2\<lparr>Indexes := ixs\<rparr>)
                | (None, ixs) \<Rightarrow> (Inr rowId, r1, tbl2\<lparr>Indexes := ixs\<rparr>))))"

text \<open>
  The loop of \<open>Insert\<close> with its two accumulators \<open>rowIds\<close> and \<open>insertedRows\<close>. On
  an error the source returns \<open>nil, nil, err\<close>.
\<close>

fun Insert_loop :: "env \<Rightarrow> Database \<Rightarrow> Table \<Rightarrow> row list \<Rightarrow> int list \<Rightarrow> row list
    \<Rightarrow> (error + int list \<times> row list) \<times> Table" where
  "Insert_loop e db tbl [] rowIds insertedRows = (Inr (rowIds, insertedRows), tbl)"
| "Insert_loop e db tbl (r # rows) rowIds insertedRows =
     (case insert e db tbl r of
        (Inl err, r1, tbl1) \<Rightarrow> (Inl err, tbl1)
      | (Inr rowId, r1, tbl1) \<Rightarrow>
          Insert_loop e db tbl1 rows (rowIds @ [rowId]) (insertedRows @ [r1]))"

definition Insert :: "env \<Rightarrow> Database \<Rightarrow> Table \<Rightarrow> row list \<Rightarrow> (error + int list \<times> row list) \<times> Table" where
  "Insert e db tbl rows = Insert_loop e db tbl rows [] []"

subsection \<open>GetRow, DeleteRow, UpdateRow\<close>

definition GetRow :: "env \<Rightarrow> Table \<Rightarrow> int \<Rightarrow> error + row" where
  "GetRow e tbl rowId =
     (case pager_GetPage (Rows tbl) rowId of
        None \<Rightarrow> Inl ExternalError
      | Some r \<Rightarrow>
          (case (if Table.Encrypt tbl then Decrypt e (HashedKey tbl) (Nonce tbl) r else Inr r) of
             Inl err \<Rightarrow> Inl err
           | Inr r1 \<Rightarrow>
               (case (if Table.Compress tbl then Decompress e r1 else Inr r1) of
                  Inl err \<Rightarrow> Inl err
                | Inr r2 \<Rightarrow> decodeRow e r2)))"

text \<open>
  \<open>DeleteRow\<close> decodes the page as it is stored and removes, for every column of the
  decoded row and every index covering it, the entry under the text of the value.
\<close>

definition remove_indexes :: "env \<Rightarrow> int \<Rightarrow> string \<Rightarrow> val \<Rightarrow> (string \<times> Index) list \<Rightarrow> (string \<times> Index) list" where
  "remove_indexes e rowId col v ixs =
     map (\<lambda>(n, idx). if col \<in> set (Columns idx)
                      then (n, idx\<lparr>btree := btree_Remove (btree idx) (sprintv e v) (show_int rowId)\<rparr>)
                      else (n, idx)) ixs"

fun unindex_row :: "env \<Rightarrow> int \<Rightarrow> row \<Rightarrow> (string \<times> Index) list \<Rightarrow> (string \<times> Index) list" where
  "unindex_row e rowId [] ixs = ixs"
| "unindex_row e rowId ((col, v) # rest) ixs = unindex_row e rowId rest (remove_indexes e rowId col v ixs)"

definition DeleteRow :: "env \<Rightarrow> Table \<Rightarrow> int \<Rightarrow> error option \<times> Table" where
  "DeleteRow e tbl rowId =
     (case pager_GetPage (Rows tbl) rowId of
        None \<Rightarrow> (Some ExternalError, tbl)
      | Some r \<Rightarrow>
          (case decodeRow e r of
             Inl err \<Rightarrow> (Some err, tbl)
           | Inr decoded \<Rightarrow>
               let tbl1 = tbl\<lparr>Indexes := unindex_row e rowId decoded (Indexes tbl)\<rparr>
               in (case pager_DeletePage (Rows tbl1) rowId of
                     None \<Rightarrow> (Some ExternalError, tbl1)
                   | Some pg \<Rightarrow> (None, tbl1\<lparr>Rows := pg\<rparr>))))"

record SetClause =
  ColumnName :: string
  Value :: val

text \<open>The type switch of \<open>UpdateRow\<close> for the column that a set clause names.\<close>

definition update_check :: "env \<Rightarrow> string \<Rightarrow> ColumnDefinition \<Rightarrow> row \<Rightarrow> error option \<times> row" where
  "update_check e colName colDef r =
     (let dt = ToUpper (DataType colDef)
      in if dt = ''CHARACTER'' \<or> dt = ''CHAR''
         then (case row_get r colName of
                 VString s \<Rightarrow> if int (length s) > Length colDef then (Some (ColumnTooLong colName), r)
                               else (None, r)
               | VNil \<Rightarrow> (None, r)
               | _ \<Rightarrow> if \<not> NotNull colDef then (Some (NotAString colName), r) else (None, r))
         else if dt = ''NUMERIC'' \<or> dt = ''DECIMAL'' \<or> dt = ''DEC'' \<or> dt = ''FLOAT''
                 \<or> dt = ''DOUBLE'' \<or> dt = ''REAL''
         then (case row_get r colName of
                 VFloat64 w \<Rightarrow>
                   let parts = split_dot (fmt_float_14g e w) []
                   in if length parts > 1
                      then
                        let scale = int (length (parts ! 1));
                            precision = int (length (parts ! 0)) + int (length (parts ! 1))
                        in if Scale colDef > 0 \<and> scale > Scale colDef
                           then (Some (TooManyDigits colName), r)
                           else if Precision colDef > 0 \<and> precision > Precision colDef
                           then (Some (ColumnTooLarge colName), r)
                           else (None, r)
                      else (None, r)
               | _ \<Rightarrow> (Some (NotAFloat64 colName), r))
         else if dt = ''INT'' \<or> dt = ''INTEGER'' \<or> dt = ''SMALLINT''
         then (let range = (\<lambda>i r1.
                     if (dt = ''INT'' \<or> dt = ''INTEGER'') \<and> i > 2147483647
                     then (Some (TooLargeForInt colName), r1)
                     else if dt = ''SMALLINT'' \<and> i > 32767
                     then (Some (TooLargeForSmallint colName), r1)
                     else (None, r1))
               in case row_get r colName of
                    VInt i \<Rightarrow> range i r
                  | VUint64 n \<Rightarrow> range (wrap64 (int n)) (row_set r colName (VInt (wrap64 (int n))))
                  | _ \<Rightarrow> (Some (NotAnInt colName), r))
         else (None, r))"

text \<open>The loop over the column definitions inside one set clause.\<close>

fun update_schema :: "env \<Rightarrow> TableSchema \<Rightarrow> string \<Rightarrow> row \<Rightarrow> error option \<times> row" where
  "update_schema e [] setCol r = (None, r)"
| "update_schema e ((colName, colDef) # cols) setCol r =
     (if colName = setCol
      then case update_check e colName colDef r of
             (Some err, r1) \<Rightarrow> (Some err, r1)
           | (None, r1) \<Rightarrow> update_schema e cols setCol r1
      else update_schema e cols setCol r)"

text \<open>
  The first loop over the set clauses. \<open>prevRow\<close> is assigned a copy of the row at the
  start of every clause, so after the loop it is the row as it was before the last clause.
\<close>

fun update_sets :: "env \<Rightarrow> TableSchema \<Rightarrow> SetClause list \<Rightarrow> row \<Rightarrow> row \<Rightarrow> error option \<times> row \<times> row" where
  "update_sets e schema [] r prevRow = (None, r, prevRow)"
| "update_sets e schema (st # sets) r prevRow =
     (if \<not> row_has r (SetClause.ColumnName st)
      then (Some (ColumnDoesNotExist (SetClause.ColumnName st)), r, prevRow)
      else case update_schema e schema (SetClause.ColumnName st)
                  (row_set r (SetClause.ColumnName st) (Value st)) of
             (Some err, r1) \<Rightarrow> (Some err, r1, r)
           | (None, r1) \<Rightarrow> update_sets e schema sets r1 r)"

text \<open>The second loop: for every set clause, the indexes covering its column.\<close>

definition reindex :: "env \<Rightarrow> int \<Rightarrow> string \<Rightarrow> row \<Rightarrow> row \<Rightarrow> (string \<times> Index) list \<Rightarrow> (string \<times> Index) list" where
  "reindex e rowId colName prevRow r ixs =
     map (\<lambda>(n, idx).
            if colName \<in> set (Columns idx)
            then (n, idx\<lparr>btree :=
                     btree_Put (btree_Remove (btree idx) (sprintv e (row_get prevRow colName)) (show_int rowId))
                       (sprintv e (row_get r colName)) (show_int rowId)\<rparr>)
            else (n, idx)) ixs"

fun reindex_schema :: "env \<Rightarrow> int \<Rightarrow> TableSchema \<Rightarrow> string \<Rightarrow> row \<Rightarrow> row \<Rightarrow> (string \<times> Index) list
    \<Rightarrow> (string \<times> Index) list" where
  "reindex_schema e rowId [] setCol prevRow r ixs = ixs"
| "reindex_schema e rowId ((colName, colDef) # cols) setCol prevRow r ixs =
     reindex_schema e rowId cols setCol prevRow r
       (if colName = setCol then reindex e rowId colName prevRow r ixs else ixs)"

fun reindex_sets :: "env \<Rightarrow> int \<Rightarrow> TableSchema \<Rightarrow> SetClause list \<Rightarrow> row \<Rightarrow> row \<Rightarrow> (string \<times> Index) list
    \<Rightarrow> (string \<times> Index) list" where
  "reindex_sets e rowId schema [] prevRow r ixs = ixs"
| "reindex_sets e rowId schema (st # sets) prevRow r ixs =
     reindex_sets e rowId schema sets prevRow r
       (reindex_schema e rowId schema (SetClause.ColumnName st) prevRow r ixs)"

text \<open>
  \<open>UpdateRow\<close> writes the encoded row to the page as \<open>EncodeRow\<close> returns it. The
  result carries the row map and the table as the call leaves them.
\<close>

definition UpdateRow :: "env \<Rightarrow> Table \<Rightarrow> int \<Rightarrow> row \<Rightarrow> SetClause list \<Rightarrow> error option \<times> row \<times> Table" where
  "UpdateRow e tbl rowId r sets =
     (case update_sets e (TableSchema tbl) sets r [] of
        (Some err, r1, prevRow) \<Rightarrow> (Some err, r1, tbl)
      | (None, r1, prevRow) \<Rightarrow>
          (case EncodeRow e r1 of
             Inl err \<Rightarrow> (Some err, r1, tbl)
           | Inr encoded \<Rightarrow>
               (case pager_WriteTo (Rows tbl) rowId encoded of
                  None \<Rightarrow> (Some ExternalError, r1, tbl)
                | Some pg \<Rightarrow>
                    (None, r1, tbl\<lparr>Rows := pg,
                                   Indexes := reindex_sets e rowId (TableSchema tbl) sets prevRow r1 (Indexes tbl)\<rparr>))))"

subsection \<open>CreateIndex and CreateTable\<close>

text \<open>
  The file system calls of \<open>CreateIndex\<close> and \<open>CreateTable\<close> can fail; which of them
  does is given from outside.
\<close>

record faults =
  mkdir_fails :: bool
  btree_open_fails :: bool
  index_create_fails :: bool
  index_encode_fails :: bool
  seq_create_fails :: bool
  schema_create_fails :: bool
  schema_encode_fails :: bool
  pager_open_fails :: bool

definition MAX_COLUMN_NAME_SIZE :: nat where "MAX_COLUMN_NAME_SIZE = 64"
definition MAX_TABLE_NAME_SIZE :: nat where "MAX_TABLE_NAME_SIZE = 64"
definition MAX_INDEX_NAME_SIZE :: nat where "MAX_INDEX_NAME_SIZE = 64"

definition CreateIndex :: "faults \<Rightarrow> Table \<Rightarrow> string \<Rightarrow> string list \<Rightarrow> bool \<Rightarrow> error option \<times> Table" where
  "CreateIndex fs tbl name columns unique =
     (if length name > MAX_INDEX_NAME_SIZE then (Some IndexNameTooLong, tbl)
      else if map_of (Indexes tbl) name \<noteq> None then (Some (IndexAlreadyExists name), tbl)
      else if btree_open_fails fs then (Some ExternalError, tbl)
      else
        let tbl1 = tbl\<lparr>Indexes := Indexes tbl @
                     [(name, \<lparr>Index.Name = name, Columns = columns, Unique = unique, btree = Map.empty\<rparr>)]\<rparr>
        in if index_create_fails fs then (Some ExternalError, tbl1)
           else if index_encode_fails fs then (Some ExternalError, tbl1)
           else (None, tbl1))"

text \<open>The second type switch of the column loop of \<open>CreateTable\<close>.\<close>

definition create_check_type :: "string \<Rightarrow> ColumnDefinition \<Rightarrow> error option" where
  "create_check_type colName colDef =
     (let dt = ToUpper (DataType colDef)
      in if dt = ''CHARACTER'' \<or> dt = ''CHAR''
         then (if Length colDef = 0 then Some (RequiresLength colName) else None)
         else if dt = ''NUMERIC'' \<or> dt = ''DECIMAL'' \<or> dt = ''DEC'' \<or> dt = ''FLOAT''
                 \<or> dt = ''DOUBLE'' \<or> dt = ''REAL''
         then (if Precision colDef = 0 then Some (RequiresPrecision colName)
               else if Scale colDef = 0 then Some (RequiresScale colName)
               else None)
         else if dt = ''INT'' \<or> dt = ''INTEGER'' \<or> dt = ''SMALLINT''
                 \<or> dt = ''DATE'' \<or> dt = ''TIME'' \<or> dt = ''TIMESTAMP'' \<or> dt = ''DATETIME''
                 \<or> dt = ''BINARY'' \<or> dt = ''UUID'' \<or> dt = ''BOOLEAN'' \<or> dt = ''BOOL''
                 \<or> dt = ''TEXT'' \<or> dt = ''BLOB''
         then None
         else Some (InvalidDataType (DataType colDef)))"

text \<open>
  \<open>for colName, colDef := range tblSchema.ColumnDefinitions\<close> of \<open>CreateTable\<close>, with
  the flag \<open>sequenceDefined\<close>. Every error of the loop makes \<open>CreateTable\<close> drop the
  table again.
\<close>

fun create_columns :: "env \<Rightarrow> faults \<Rightarrow> TableSchema \<Rightarrow> bool \<Rightarrow> Table \<Rightarrow> error + Table" where
  "create_columns e fs [] sequenceDefined tbl = Inr tbl"
| "create_columns e fs ((colName, colDef) # cols) sequenceDefined tbl =
     (if length colName > MAX_COLUMN_NAME_SIZE then Inl ColumnNameTooLong
      else if \<not> IsValidDataType e (DataType colDef) then Inl (InvalidDataType (DataType colDef))
      else
        case (if ColumnDefinition.Unique colDef
              then CreateIndex fs tbl (''unique_'' @ colName) [colName] True
              else (None, tbl)) of
          (Some err, tbl1) \<Rightarrow> Inl err
        | (None, tbl1) \<Rightarrow>
            if Sequence colDef \<and> sequenceDefined then Inl OnlyOneSequence
            else if Sequence colDef \<and> (\<not> ColumnDefinition.Unique colDef \<or> \<not> NotNull colDef)
            then Inl (SequenceMustBeUniqueNotNull colName)
            else if Sequence colDef \<and> ToUpper (DataType colDef) \<noteq> ''INT''
                    \<and> ToUpper (DataType colDef) \<noteq> ''INTEGER''
            then Inl (SequenceMustBeInteger colName)
            else case create_check_type colName colDef of
                   Some err \<Rightarrow> Inl err
                 | None \<Rightarrow> create_columns e fs cols (sequenceDefined \<or> Sequence colDef) tbl1)"

text \<open>
  The key derivation of \<open>CreateTable\<close>. \<open>[32]byte(hashBytes)\<close> takes the first 32
  bytes of the digest and panics on a shorter slice. The nonce is first set to twelve zero
  bytes; then \<open>append(Nonce[:], hashBytes[len(hashBytes)-12:]...)\<close> puts the last twelve
  bytes of the digest behind those twelve bytes, and \<open>[12]byte(...)\<close> takes the first
  twelve bytes of the result.
\<close>

definition derive_key :: "env \<Rightarrow> bytes \<Rightarrow> Table \<Rightarrow> error + Table" where
  "derive_key e key tbl =
     (let hashBytes = sha256_sum e key
      in if length hashBytes < 32 then Inl RuntimePanic
         else
           let tbl1 = tbl\<lparr>Table.Encrypt := True, HashedKey := take 32 hashBytes\<rparr>;
               tbl2 = tbl1\<lparr>Nonce := replicate 12 0\<rparr>
           in Inr (tbl2\<lparr>Nonce := take 12 (Nonce tbl2 @ drop (length hashBytes - 12) hashBytes)\<rparr>))"

text \<open>
  \<open>CreateTable\<close>. A table that is being built has no pager and no sequence file yet;
  the model gives it an empty pager and an empty file from the start. When \<open>Mkdir\<close>
  fails the source leaves the new entry in the table map.
\<close>

definition CreateTable :: "env \<Rightarrow> faults \<Rightarrow> Database \<Rightarrow> string \<Rightarrow> TableSchema option \<Rightarrow> bool \<Rightarrow> bool \<Rightarrow> bytes
    \<Rightarrow> error option \<times> Database" where
  "CreateTable e fs db name tblSchema encrypt compress key =
     (case tblSchema of
        None \<Rightarrow> (Some TableSchemaIsNil, db)
      | Some schema \<Rightarrow>
          if length name > MAX_TABLE_NAME_SIZE then (Some TableNameTooLong, db)
          else if Tables db name \<noteq> None then (Some (TableAlreadyExists name), db)
          else
            let tbl0 = \<lparr>Table.Name = name, Indexes = [],
                        Rows = \<lparr>pages = [], deleted = []\<rparr>,
                        TableSchema = schema,
                        Directory = Database.Directory db @ path_separator e @ name,
                        SequenceFile = \<lparr>content = [], offset = 0\<rparr>,
                        Compress = False, Encrypt = False,
                        HashedKey = replicate 32 0, Nonce = replicate 12 0\<rparr>;
                dropped = db\<lparr>Tables := (Tables db)(name := None)\<rparr>
            in if mkdir_fails fs then (Some ExternalError, db\<lparr>Tables := (Tables db)(name \<mapsto> tbl0)\<rparr>)
               else case create_columns e fs schema False tbl0 of
                      Inl err \<Rightarrow> (Some err, dropped)
                    | Inr tbl1 \<Rightarrow>
                        (case (if encrypt then derive_key e key tbl1 else Inr tbl1) of
                           Inl err \<Rightarrow> (Some err, db\<lparr>Tables := (Tables db)(name \<mapsto> tbl1\<lparr>Table.Encrypt := True\<rparr>)\<rparr>)
                         | Inr tbl2 \<Rightarrow>
                             let tbl3 = (if compress then tbl2\<lparr>Table.Compress := True\<rparr> else tbl2)
                             in if seq_create_fails fs then (Some ExternalError, dropped)
                                else if schema_create_fails fs then (Some ExternalError, dropped)
                                else if schema_encode_fails fs then (Some ExternalError, dropped)
                                else if pager_open_fails fs then (Some ExternalError, dropped)
                                else (None, db\<lparr>Tables := (Tables db)(name \<mapsto> tbl3)\<rparr>)))"

section \<open>Notions used in the statements\<close>

text \<open>\<open>seq_only t t'\<close>: the table \<open>t'\<close> is \<open>t\<close> up to the sequence file.\<close>

definition seq_only :: "Table \<Rightarrow> Table \<Rightarrow> bool" where
  "seq_only t t' = (t' = t\<lparr>SequenceFile := SequenceFile t'\<rparr>)"

text \<open>
  \<open>committed t t'\<close>: nothing stored in \<open>t\<close> has been taken back in \<open>t'\<close>. Every page of
  \<open>t\<close> is a page of \<open>t'\<close> under the same id, the pages marked free are the same, the
  indexes are the same ones, and every value under a key of an index of \<open>t\<close> is still under
  that key in \<open>t'\<close>.
\<close>

definition btree_le :: "BTree \<Rightarrow> BTree \<Rightarrow> bool" where
  "btree_le bt bt' = (\<forall>k vs. bt k = Some vs \<longrightarrow> (\<exists>ws. bt' k = Some (vs @ ws)))"

definition index_le :: "string \<times> Index \<Rightarrow> string \<times> Index \<Rightarrow> bool" where
  "index_le a b =
     (fst a = fst b \<and> Index.Name (snd a) = Index.Name (snd b) \<and> Columns (snd a) = Columns (snd b)
      \<and> Index.Unique (snd a) = Index.Unique (snd b) \<and> btree_le (btree (snd a)) (btree (snd b)))"

definition committed :: "Table \<Rightarrow> Table \<Rightarrow> bool" where
  "committed t t' =
     ((\<exists>ps. pages (Rows t') = pages (Rows t) @ ps) \<and> deleted (Rows t') = deleted (Rows t)
      \<and> list_all2 index_le (Indexes t) (Indexes t'))"

text \<open>
  \<open>insert_each\<close>: the rows inserted one after the other in the order of the list, each
  into the table that the one before left; the result is the ids in that order, the row
  maps as \<open>insert\<close> left them and the last table, or nothing when some \<open>insert\<close> fails.
\<close>

fun insert_each :: "env \<Rightarrow> Database \<Rightarrow> Table \<Rightarrow> row list \<Rightarrow> (int list \<times> row list \<times> Table) option" where
  "insert_each e db tbl [] = Some ([], [], tbl)"
| "insert_each e db tbl (r # rows) =
     (case insert e db tbl r of
        (Inl err, r1, tbl1) \<Rightarrow> None
      | (Inr rowId, r1, tbl1) \<Rightarrow>
          (case insert_each e db tbl1 rows of
             None \<Rightarrow> None
           | Some (ids, rs, tbl2) \<Rightarrow> Some (rowId # ids, r1 # rs, tbl2)))"

text \<open>The sequence file after \<open>k\<close> increments of a fresh one.\<close>

definition seq_file_after :: "nat \<Rightarrow> SeqFile" where
  "seq_file_after k =
     (if k = 0 then \<lparr>content = [], offset = 0\<rparr>
      else \<lparr>content = show_nat k, offset = length (show_nat k)\<rparr>)"

section \<open>Concrete states used below\<close>

definition plain_io :: users_io where
  "plain_io = \<lparr>seek_fails = False, gob_users = (\<lambda>m. Inr [])\<rparr>"

definition grant_user :: User where
  "grant_user = \<lparr>Username = ''u'', Password = ''h'',
     Privileges = [\<lparr>DatabaseName = ''d'', Privilege.TableName = ''t'', PrivilegeActions = [PRIV_SELECT]\<rparr>]\<rparr>"

definition grant_catalog :: Catalog where
  "grant_catalog = \<lparr>Users = [''u'' \<mapsto> grant_user], UsersFile = [1, 2, 3]\<rparr>"

definition counting_user :: User where
  "counting_user = \<lparr>Username = ''u'', Password = ''h'',
     Privileges = [\<lparr>DatabaseName = ''*'', Privilege.TableName = ''*'', PrivilegeActions = [PRIV_SELECT]\<rparr>,
                   \<lparr>DatabaseName = ''d'', Privilege.TableName = ''*'', PrivilegeActions = [PRIV_SELECT]\<rparr>]\<rparr>"

definition revoke_first :: Privilege where
  "revoke_first = \<lparr>DatabaseName = ''a'', Privilege.TableName = ''b'', PrivilegeActions = [PRIV_SELECT]\<rparr>"

definition revoke_second :: Privilege where
  "revoke_second = \<lparr>DatabaseName = ''c'', Privilege.TableName = ''d'', PrivilegeActions = [PRIV_INSERT]\<rparr>"

definition revoke_catalog :: Catalog where
  "revoke_catalog = \<lparr>Users = [''u'' \<mapsto> \<lparr>Username = ''u'', Password = ''h'',
       Privileges = [revoke_first, revoke_second]\<rparr>], UsersFile = []\<rparr>"

text \<open>
  A small environment for running the model: the row codec is a code book over the rows
  of \<open>toy_rows\<close>, the compressor puts one byte in front, the key stream is zero, the
  digest is constant.
\<close>

fun book_index :: "row list \<Rightarrow> row \<Rightarrow> nat \<Rightarrow> nat option" where
  "book_index [] r i = None"
| "book_index (x # xs) r i = (if x = r then Some i else book_index xs r (i + 1))"

definition toy_rows :: "row list" where
  "toy_rows = [[(''id'', VInt 1)], [(''id'', VInt 2)], [(''id'', VInt 5)],
                [(''id'', VInt 1), (''n'', VInt 1)], [(''id'', VInt 2), (''n'', VInt 3)]]"

definition toy_env :: env where
  "toy_env = \<lparr>
     gob_encode = (\<lambda>r. case book_index toy_rows r 0 of None \<Rightarrow> Inl ExternalError | Some i \<Rightarrow> Inr [i]),
     gob_decode = (\<lambda>b. case b of [i] \<Rightarrow> if i < length toy_rows then Inr (toy_rows ! i) else Inl ExternalError
                        | _ \<Rightarrow> Inl ExternalError),
     zstd_compress = (\<lambda>b. Inr (40 # b)),
     zstd_decompress = (\<lambda>b. case b of [] \<Rightarrow> Inl ExternalError
                             | x # xs \<Rightarrow> if x = 40 then Inr xs else Inl ExternalError),
     chacha20_stream = (\<lambda>key nonce i. 0),
     sha256_sum = (\<lambda>b. replicate 32 7),
     uuid_new = (\<lambda>c. ''00000000-0000-0000-0000-000000000000''),
     uuid_parse_ok = (\<lambda>s. length s = 36),
     time_now = (\<lambda>c. 0),
     IsValidDateTimeFormat = (\<lambda>s. True),
     IsValidDateFormat = (\<lambda>s. True),
     IsValidTimeFormat = (\<lambda>s. True),
     StringToGOTime = (\<lambda>s. Inr 0),
     IsValidDataType = (\<lambda>s. True),
     fmt_float_14g = (\<lambda>w. ''0''),
     fmt_float_v = (\<lambda>w. ''0''),
     fmt_time_v = (\<lambda>t. ''0001-01-01 00:00:00 +0000 UTC''),
     path_separator = ''/''\<rparr>"

definition no_faults :: faults where
  "no_faults = \<lparr>mkdir_fails = False, btree_open_fails = False, index_create_fails = False,
     index_encode_fails = False, seq_create_fails = False, schema_create_fails = False,
     schema_encode_fails = False, pager_open_fails = False\<rparr>"

definition id_column :: ColumnDefinition where
  "id_column = \<lparr>DataType = ''INT'', NotNull = True, Sequence = False, Unique = True, Length = 0,
     Scale = 0, Precision = 0, References = None, Default = None, Check = None\<rparr>"

definition empty_db :: Database where
  "empty_db = \<lparr>Database.Name = ''d'', Tables = Map.empty, Directory = ''data/databases/d''\<rparr>"

definition plain_table :: Table where
  "plain_table = \<lparr>Table.Name = ''t'',
     Indexes = [(''unique_id'', \<lparr>Index.Name = ''unique_id'', Columns = [''id''], Unique = True, btree = Map.empty\<rparr>)],
     Rows = \<lparr>pages = [], deleted = []\<rparr>,
     TableSchema = [(''id'', id_column)],
     Directory = ''data/databases/d/t'',
     SequenceFile = \<lparr>content = [], offset = 0\<rparr>,
     Compress = False, Encrypt = False,
     HashedKey = replicate 32 0, Nonce = replicate 12 0\<rparr>"

definition uuid_column :: ColumnDefinition where
  "uuid_column = \<lparr>DataType = ''uuid'', NotNull = True, Sequence = False, Unique = False, Length = 0,
     Scale = 0, Precision = 0, References = None, Default = Some GenUUID, Check = None\<rparr>"

definition uuid_table :: Table where
  "uuid_table = \<lparr>Table.Name = ''k'',
     Indexes = [],
     Rows = \<lparr>pages = [], deleted = []\<rparr>,
     TableSchema = [(''k'', uuid_column)],
     Directory = ''data/databases/d/k'',
     SequenceFile = \<lparr>content = [], offset = 0\<rparr>,
     Compress = False, Encrypt = False,
     HashedKey = replicate 32 0, Nonce = replicate 12 0\<rparr>"

definition row1 :: row where "row1 = [(''id'', VInt 1)]"
definition row2 :: row where "row2 = [(''id'', VInt 2)]"

definition plain_table1 :: Table where
  "plain_table1 = plain_table\<lparr>
     Indexes := [(''unique_id'', \<lparr>Index.Name = ''unique_id'', Columns = [''id''], Unique = True,
                   btree = [''1'' \<mapsto> [''0'']]\<rparr>)],
     Rows := \<lparr>pages = [[0]], deleted = []\<rparr>\<rparr>"

definition seq_column :: ColumnDefinition where
  "seq_column = \<lparr>DataType = ''INT'', NotNull = True, Sequence = True, Unique = True, Length = 0,
     Scale = 0, Precision = 0, References = None, Default = None, Check = None\<rparr>"

definition seq_table :: Table where
  "seq_table = plain_table\<lparr>TableSchema := [(''id'', seq_column)]\<rparr>"

definition seq_table1 :: Table where
  "seq_table1 = seq_table\<lparr>
     Indexes := [(''unique_id'', \<lparr>Index.Name = ''unique_id'', Columns = [''id''], Unique = True,
                   btree = [''1'' \<mapsto> [''0'']]\<rparr>)],
     Rows := \<lparr>pages = [[0]], deleted = []\<rparr>,
     SequenceFile := \<lparr>content = ''1'', offset = 1\<rparr>\<rparr>"

definition seq_table2 :: Table where
  "seq_table2 = seq_table\<lparr>
     Indexes := [(''unique_id'', \<lparr>Index.Name = ''unique_id'', Columns = [''id''], Unique = True,
                   btree = [''1'' \<mapsto> [''0''], ''2'' \<mapsto> [''1'']]\<rparr>)],
     Rows := \<lparr>pages = [[0], [1]], deleted = []\<rparr>,
     SequenceFile := \<lparr>content = ''2'', offset = 1\<rparr>\<rparr>"

definition encrypted_table :: Table where
  "encrypted_table = plain_table\<lparr>Table.Encrypt := True, HashedKey := replicate 32 7\<rparr>"

definition row5 :: row where "row5 = [(''id'', VInt 5)]"

definition id_table :: "string \<Rightarrow> bool \<Rightarrow> Table" where
  "id_table sep compress = \<lparr>Table.Name = ''t'',
     Indexes = [(''unique_id'', \<lparr>Index.Name = ''unique_id'', Columns = [''id''], Unique = True, btree = Map.empty\<rparr>)],
     Rows = \<lparr>pages = [], deleted = []\<rparr>,
     TableSchema = [(''id'', id_column)],
     Directory = ''data/databases/d'' @ sep @ ''t'',
     SequenceFile = \<lparr>content = [], offset = 0\<rparr>,
     Compress = compress, Encrypt = False,
     HashedKey = replicate 32 0, Nonce = replicate 12 0\<rparr>"

definition n_column :: ColumnDefinition where
  "n_column = \<lparr>DataType = ''INT'', NotNull = False, Sequence = False, Unique = False, Length = 0,
     Scale = 0, Precision = 0, References = None, Default = None, Check = None\<rparr>"

definition two_column_table :: Table where
  "two_column_table = plain_table\<lparr>TableSchema := [(''id'', id_column), (''n'', n_column)]\<rparr>"

definition row_1_1 :: row where "row_1_1 = [(''id'', VInt 1), (''n'', VInt 1)]"
definition row_2_3 :: row where "row_2_3 = [(''id'', VInt 2), (''n'', VInt 3)]"

definition set_id_n :: "SetClause list" where
  "set_id_n = [\<lparr>SetClause.ColumnName = ''id'', Value = VInt 2\<rparr>, \<lparr>SetClause.ColumnName = ''n'', Value = VInt 3\<rparr>]"

section \<open>Privileges\<close>

lemma privilege_exists_iff:
  "privilege_exists ps priv \<longleftrightarrow>
     (\<exists>p \<in> set ps. DatabaseName p = DatabaseName priv \<and> Privilege.TableName p = Privilege.TableName priv)"
  by (induction ps) auto

text \<open>
  C1. \<open>HasPrivilege\<close> compares the number of matches with the number of requested
  actions. For a user holding \<open>(*, *, [select])\<close> and \<open>(d, *, [select])\<close> the request
  \<open>(d, t, [select, insert])\<close> is granted although no privilege covers \<open>insert\<close>, and the
  request \<open>(d, t, [select])\<close> is refused although two privileges cover \<open>select\<close>; the
  specification's reading gives the opposite answers.
\<close>

theorem HasPrivilege_counts_matches:
  "HasPrivilege counting_user ''d'' ''t'' [PRIV_SELECT, PRIV_INSERT]
   \<and> \<not> HasPrivilege_spec counting_user ''d'' ''t'' [PRIV_SELECT, PRIV_INSERT]
   \<and> \<not> HasPrivilege counting_user ''d'' ''t'' [PRIV_SELECT]
   \<and> HasPrivilege_spec counting_user ''d'' ''t'' [PRIV_SELECT]"
  by (simp add: counting_user_def HasPrivilege_def HasPrivilege_spec_def has_step_def priv_matches_def)

text \<open>
  C2. Revoking \<open>(c, d, [insert])\<close> from a user holding \<open>(a, b, [select])\<close> and
  \<open>(c, d, [insert])\<close> succeeds, removes the entry \<open>(a, b)\<close> and leaves \<open>(c, d)\<close>: the
  inner loop stops at the first entry of the list, whatever its pair.
\<close>

theorem RevokePrivilegeFromUser_removes_first_entry:
  "RevokePrivilegeFromUser plain_io revoke_catalog ''u'' revoke_second
   = (None, \<lparr>Users = [''u'' \<mapsto> \<lparr>Username = ''u'', Password = ''h'', Privileges = [revoke_second]\<rparr>],
             UsersFile = []\<rparr>)"
  by (simp add: RevokePrivilegeFromUser_def revoke_catalog_def revoke_first_def revoke_second_def
      EncodeUsersToFile_def plain_io_def)

text \<open>
  C10. When the user already holds an entry with the database and table name of the
  request, \<open>GrantPrivilegeToUser\<close> returns the already-exists error and the catalog, that
  is the privilege list of every user and the content of the users file, is what it was;
  the action lists play no part.
\<close>

theorem GrantPrivilegeToUser_existing_pair:
  assumes "Users cat username = Some u"
    and "p \<in> set (Privileges u)"
    and "DatabaseName p = DatabaseName priv"
    and "Privilege.TableName p = Privilege.TableName priv"
  shows "GrantPrivilegeToUser io cat username priv = (Some (PrivilegeAlreadyExists username), cat)"
  using assms by (auto simp: GrantPrivilegeToUser_def privilege_exists_iff)

theorem GrantPrivilegeToUser_existing_pair_witness:
  "GrantPrivilegeToUser plain_io grant_catalog ''u''
      \<lparr>DatabaseName = ''d'', Privilege.TableName = ''t'', PrivilegeActions = [PRIV_INSERT, PRIV_UPDATE]\<rparr>
    = (Some (PrivilegeAlreadyExists ''u''), grant_catalog)"
  using GrantPrivilegeToUser_existing_pair [of grant_catalog "''u''" grant_user
      "\<lparr>DatabaseName = ''d'', Privilege.TableName = ''t'', PrivilegeActions = [PRIV_SELECT]\<rparr>"
      "\<lparr>DatabaseName = ''d'', Privilege.TableName = ''t'', PrivilegeActions = [PRIV_INSERT, PRIV_UPDATE]\<rparr>"
      plain_io]
  by (simp add: grant_catalog_def grant_user_def)

section \<open>Decimal text\<close>

lemma less_ten_cases:
  "(d::nat) < 10 \<Longrightarrow> d = 0 \<or> d = 1 \<or> d = 2 \<or> d = 3 \<or> d = 4 \<or> d = 5 \<or> d = 6 \<or> d = 7 \<or> d = 8 \<or> d = 9"
  by arith

lemma digit_of_digit_char: "d < 10 \<Longrightarrow> digit_of (digit_char d) = Some d"
  using less_ten_cases [of d] by (auto simp: digit_of_def digit_char_def)

lemma digit_char_not_sign: "d < 10 \<Longrightarrow> digit_char d \<noteq> CHR ''-'' \<and> digit_char d \<noteq> CHR ''+''"
  using less_ten_cases [of d] by (auto simp: digit_char_def)

lemma parse_digits_append:
  "parse_digits (xs @ ys) acc = (case parse_digits xs acc of None \<Rightarrow> None | Some a \<Rightarrow> parse_digits ys a)"
  by (induction xs arbitrary: acc) (auto split: option.splits)

lemma parse_show_nat: "parse_digits (show_nat n) 0 = Some n"
proof (induction n rule: show_nat.induct)
  case (1 n)
  show ?case
  proof (cases "n < 10")
    case True
    then show ?thesis by (subst show_nat.simps) (simp add: digit_of_digit_char)
  next
    case False
    with 1 have ih: "parse_digits (show_nat (n div 10)) 0 = Some (n div 10)" by simp
    have "n mod 10 < 10" by simp
    then have d: "digit_of (digit_char (n mod 10)) = Some (n mod 10)" by (rule digit_of_digit_char)
    show ?thesis using False
      by (subst show_nat.simps) (simp add: parse_digits_append ih d)
  qed
qed

lemma show_nat_nonempty: "show_nat n \<noteq> []"
  by (subst show_nat.simps) simp

lemma hd_show_nat: "\<exists>d cs. d < 10 \<and> show_nat n = digit_char d # cs"
proof (induction n rule: show_nat.induct)
  case (1 n)
  show ?case
  proof (cases "n < 10")
    case True
    then show ?thesis by (subst show_nat.simps) auto
  next
    case False
    with 1 obtain d cs where "d < 10" "show_nat (n div 10) = digit_char d # cs" by auto
    then show ?thesis using False by (subst show_nat.simps) auto
  qed
qed

lemma ParseInt_show_nat:
  assumes "int n < 2 ^ 63"
  shows "ParseInt (show_nat n) = Some (int n)"
proof -
  obtain d cs where d: "d < 10" and s: "show_nat n = digit_char d # cs" using hd_show_nat by blast
  have p: "parse_digits (digit_char d # cs) 0 = Some n" using parse_show_nat [of n] s by simp
  from digit_char_not_sign [OF d] show ?thesis using assms p
    unfolding ParseInt_def s by (simp del: parse_digits.simps)
qed

lemma ParseInt_show_int_pos:
  assumes "0 \<le> i" "i < 2 ^ 63"
  shows "ParseInt (show_int i) = Some i"
  using ParseInt_show_nat [of "nat i"] assms by (simp add: show_int_def)

section \<open>The schema check changes nothing but the sequence file\<close>

lemma seq_only_refl [simp]: "seq_only t t"
  by (simp add: seq_only_def)

lemma seq_only_trans: "seq_only t t1 \<Longrightarrow> seq_only t1 t2 \<Longrightarrow> seq_only t t2"
  unfolding seq_only_def by (metis Table.update_convs(6) Table.surjective Table.select_convs)

lemma seq_only_IncrementSequence: "seq_only tbl (snd (IncrementSequence tbl))"
  by (simp add: IncrementSequence_def seq_only_def Let_def split: option.split)

lemma tbl_check_TEXT: "snd (snd (check_TEXT c r tbl)) = tbl"
  by (simp add: check_TEXT_def split: val.split)

lemma tbl_check_BOOL: "snd (snd (check_BOOL c r tbl)) = tbl"
  by (simp add: check_BOOL_def split: val.split)

lemma tbl_decode_hex_column: "snd (snd (decode_hex_column c s r tbl)) = tbl"
  by (simp add: decode_hex_column_def split: prod.split)

lemma tbl_check_BLOB: "snd (snd (check_BLOB c r tbl)) = tbl"
  by (simp add: check_BLOB_def tbl_decode_hex_column split: val.split)

lemma tbl_check_BINARY: "snd (snd (check_BINARY c cd r tbl)) = tbl"
  by (simp add: check_BINARY_def tbl_decode_hex_column split: val.split)

lemma tbl_check_UUID: "snd (snd (check_UUID e c cd r tbl)) = tbl"
  by (simp add: check_UUID_def Let_def split: val.split option.split default_value.split)

lemma tbl_check_DATETIME: "snd (snd (check_DATETIME e c cd r tbl)) = tbl"
  by (simp add: check_DATETIME_def Let_def split: val.split option.split default_value.split sum.split)

lemma tbl_check_DATE: "snd (snd (check_DATE e c cd r tbl)) = tbl"
  by (simp add: check_DATE_def Let_def split: val.split sum.split)

lemma tbl_check_TIME: "snd (snd (check_TIME e c cd r tbl)) = tbl"
  by (simp add: check_TIME_def Let_def split: val.split sum.split)

lemma tbl_check_CHAR: "snd (snd (check_CHAR c cd r tbl)) = tbl"
  by (simp add: check_CHAR_def Let_def split: val.split)

lemma tbl_check_NUMERIC: "snd (snd (check_NUMERIC e c cd r tbl)) = tbl"
  by (simp add: check_NUMERIC_def Let_def split: val.split)

lemma tbl_check_int_range: "snd (snd (check_int_range c cd i r tbl)) = tbl"
  by (simp add: check_int_range_def)

lemma tbl_check_int_value: "snd (snd (check_int_value c cd r tbl)) = tbl"
  by (simp add: check_int_value_def tbl_check_int_range split: val.split)

lemma seq_only_check_INT: "seq_only tbl (snd (snd (check_INT c cd r tbl)))"
proof (cases "IncrementSequence tbl")
  case (Pair res tbl1)
  then have "seq_only tbl tbl1" using seq_only_IncrementSequence [of tbl] by simp
  then show ?thesis using Pair
    by (simp add: check_INT_def tbl_check_int_value split: option.split sum.split)
qed

lemma seq_only_check_type: "seq_only tbl (snd (snd (check_type e c cd r tbl)))"
  by (simp add: check_type_def Let_def tbl_check_TEXT tbl_check_BOOL tbl_check_BLOB tbl_check_BINARY
      tbl_check_UUID tbl_check_DATETIME tbl_check_DATE tbl_check_TIME tbl_check_CHAR
      tbl_check_NUMERIC seq_only_check_INT)

lemma seq_only_check_column: "seq_only tbl (snd (snd (check_column e db c cd r tbl)))"
proof -
  let ?r0 = "if \<not> row_has r c then row_set r c VNil else r"
  obtain f r1 tbl1 where ct: "check_type e c cd ?r0 tbl = (f, r1, tbl1)"
    by (cases "check_type e c cd ?r0 tbl")
  then have "seq_only tbl tbl1" using seq_only_check_type [of tbl e c cd ?r0] by simp
  then show ?thesis using ct
    by (simp add: check_column_def Let_def split: flow.split option.split)
qed

lemma seq_only_check_columns: "seq_only tbl (snd (snd (check_columns e db schema r tbl)))"
proof (induction schema arbitrary: r tbl)
  case Nil
  then show ?case by simp
next
  case (Cons a schema)
  obtain c cd where a: "a = (c, cd)" by (cases a)
  obtain f r1 tbl1 where st: "check_column e db c cd r tbl = (f, r1, tbl1)"
    by (cases "check_column e db c cd r tbl")
  then have s1: "seq_only tbl tbl1" using seq_only_check_column [of tbl e db c cd r] by simp
  have s2: "seq_only tbl1 (snd (snd (check_columns e db schema r1 tbl1)))" by (rule Cons.IH)
  show ?case using a st s1 seq_only_trans [OF s1 s2] by (cases f) simp_all
qed

section \<open>A not-null UUID column\<close>

lemma check_type_UUID_notnull:
  assumes "ToUpper (DataType colDef) = ''UUID''" and "NotNull colDef"
  shows "check_type e colName colDef r tbl = (Return (NotAString colName), r, tbl)"
  using assms by (simp add: check_type_def check_UUID_def)

lemma check_column_UUID_notnull:
  assumes "ToUpper (DataType colDef) = ''UUID''" and "NotNull colDef"
  shows "\<exists>err r1 tbl1. check_column e db colName colDef r tbl = (Return err, r1, tbl1)"
  using assms by (simp add: check_column_def check_type_UUID_notnull)

lemma check_columns_UUID_notnull:
  assumes "(colName, colDef) \<in> set schema"
    and "ToUpper (DataType colDef) = ''UUID''" and "NotNull colDef"
  shows "\<exists>err r1 tbl1. check_columns e db schema r tbl = (Some err, r1, tbl1)"
  using assms(1)
proof (induction schema arbitrary: r tbl)
  case Nil
  then show ?case by simp
next
  case (Cons a schema)
  obtain c cd where a: "a = (c, cd)" by (cases a)
  obtain f r1 tbl1 where st: "check_column e db c cd r tbl = (f, r1, tbl1)"
    by (cases "check_column e db c cd r tbl")
  show ?case
  proof (cases f)
    case (Return err)
    then show ?thesis using a st by simp
  next
    case Continue
    have "a \<noteq> (colName, colDef)"
      using check_column_UUID_notnull [OF assms(2,3), of e db colName r tbl] a st Continue by auto
    with Cons have "\<exists>err r2 tbl2. check_columns e db schema r1 tbl1 = (Some err, r2, tbl2)" by auto
    then show ?thesis using a st Continue by simp
  next
    case Proceed
    have "a \<noteq> (colName, colDef)"
      using check_column_UUID_notnull [OF assms(2,3), of e db colName r tbl] a st Proceed by auto
    with Cons have "\<exists>err r2 tbl2. check_columns e db schema r1 tbl1 = (Some err, r2, tbl2)" by auto
    then show ?thesis using a st Proceed by simp
  qed
qed

section \<open>What insert leaves behind\<close>

lemma btree_le_refl [simp]: "btree_le bt bt"
  by (simp add: btree_le_def)

lemma btree_le_trans: "btree_le a b \<Longrightarrow> btree_le b c \<Longrightarrow> btree_le a c"
  unfolding btree_le_def by (metis append.assoc)

lemma btree_le_Put: "btree_le bt (btree_Put bt k v)"
  by (auto simp: btree_le_def btree_Put_def)

lemma index_le_refl [simp]: "index_le a a"
  by (simp add: index_le_def)

lemma index_le_trans: "index_le a b \<Longrightarrow> index_le b c \<Longrightarrow> index_le a c"
  unfolding index_le_def using btree_le_trans by auto

lemma indexes_le_refl [simp]: "list_all2 index_le ixs ixs"
  by (simp add: list_all2_refl)

lemma indexes_le_trans:
  "list_all2 index_le a b \<Longrightarrow> list_all2 index_le b c \<Longrightarrow> list_all2 index_le a c"
  using index_le_trans by (rule list_all2_trans)

lemma committed_refl [simp]: "committed t t"
  by (simp add: committed_def)

lemma committed_trans: "committed a b \<Longrightarrow> committed b c \<Longrightarrow> committed a c"
  unfolding committed_def using indexes_le_trans by auto

lemma seq_only_committed: "seq_only t t' \<Longrightarrow> committed t t'"
  unfolding seq_only_def committed_def
  by (metis Table.select_convs(2,3) Table.surjective Table.update_convs(6) append_Nil2 indexes_le_refl)

lemma put_indexes_le:
  "list_all2 index_le ixs (snd (snd (put_indexes e tbl rowId col v ixs)))"
proof (induction ixs arbitrary: v)
  case Nil
  then show ?case by simp
next
  case (Cons a ixs)
  obtain n idx where a: "a = (n, idx)" by (cases a)
  show ?case
  proof (cases "col \<in> set (Columns idx)")
    case True
    show ?thesis
    proof (cases "index_value e tbl v")
      case (Inl err)
      then show ?thesis using a True by simp
    next
      case (Inr v1)
      obtain err v2 rest1 where p: "put_indexes e tbl rowId col v1 ixs = (err, v2, rest1)"
        by (cases "put_indexes e tbl rowId col v1 ixs")
      then have t: "list_all2 index_le ixs rest1" using Cons.IH [of v1] by simp
      have h: "index_le (n, idx) (n, idx\<lparr>btree := btree_Put (btree idx) (sprintv e v1) (show_int rowId)\<rparr>)"
        by (simp add: index_le_def btree_le_Put)
      show ?thesis using a True Inr p t h by simp
    qed
  next
    case False
    obtain err v2 rest1 where p: "put_indexes e tbl rowId col v ixs = (err, v2, rest1)"
      by (cases "put_indexes e tbl rowId col v ixs")
    then have "list_all2 index_le ixs rest1" using Cons.IH [of v] by simp
    then show ?thesis using a False p by simp
  qed
qed

lemma index_row_le:
  "list_all2 index_le ixs (snd (index_row e tbl rowId r ixs))"
proof (induction r arbitrary: ixs)
  case Nil
  then show ?case by simp
next
  case (Cons a r)
  obtain col v where a: "a = (col, v)" by (cases a)
  obtain err v1 ixs1 where p: "put_indexes e tbl rowId col v ixs = (err, v1, ixs1)"
    by (cases "put_indexes e tbl rowId col v ixs")
  then have l1: "list_all2 index_le ixs ixs1" using put_indexes_le [of ixs e tbl rowId col v] by simp
  show ?case
  proof (cases err)
    case None
    have "list_all2 index_le ixs1 (snd (index_row e tbl rowId r ixs1))" by (rule Cons.IH)
    then show ?thesis using a p None indexes_le_trans [OF l1] by simp
  next
    case (Some x)
    then show ?thesis using a p l1 by simp
  qed
qed

lemma writeRow_committed: "committed tbl (snd (writeRow e tbl r))"
  by (auto simp: writeRow_def committed_def pager_Write_def split: sum.split)

lemma writeRow_Indexes: "Indexes (snd (writeRow e tbl r)) = Indexes tbl"
  by (auto simp: writeRow_def pager_Write_def split: sum.split)

lemma committed_Indexes:
  "list_all2 index_le (Indexes t) ixs \<Longrightarrow> committed t (t\<lparr>Indexes := ixs\<rparr>)"
  by (simp add: committed_def)

lemma insert_committed: "committed tbl (snd (snd (insert e db tbl r)))"
proof -
  obtain err r1 tbl1 where c: "check_columns e db (TableSchema tbl) r tbl = (err, r1, tbl1)"
    by (cases "check_columns e db (TableSchema tbl) r tbl")
  then have c1: "committed tbl tbl1"
    using seq_only_check_columns [of tbl e db "TableSchema tbl" r] seq_only_committed by simp
  show ?thesis
  proof (cases err)
    case (Some x)
    then show ?thesis using c c1 by (simp add: insert_def)
  next
    case None
    obtain res tbl2 where w: "writeRow e tbl1 r1 = (res, tbl2)" by (cases "writeRow e tbl1 r1")
    then have c2: "committed tbl tbl2" using writeRow_committed [of tbl1 e r1] c1 committed_trans by auto
    show ?thesis
    proof (cases res)
      case (Inl x)
      then show ?thesis using c None w c2 by (simp add: insert_def)
    next
      case (Inr rowId)
      obtain ierr ixs where i: "index_row e tbl2 rowId r1 (Indexes tbl2) = (ierr, ixs)"
        by (cases "index_row e tbl2 rowId r1 (Indexes tbl2)")
      then have "list_all2 index_le (Indexes tbl2) ixs"
        using index_row_le [of "Indexes tbl2" e tbl2 rowId r1] by simp
      then have "committed tbl (tbl2\<lparr>Indexes := ixs\<rparr>)"
        using committed_trans [OF c2 committed_Indexes] by simp
      then show ?thesis using c None w Inr i by (cases ierr) (simp_all add: insert_def)
    qed
  qed
qed


lemma Insert_loop_success:
  "insert_each e db tbl rows = Some (ids, rs, tbl') \<Longrightarrow>
     Insert_loop e db tbl rows accI accR = (Inr (accI @ ids, accR @ rs), tbl')"
proof (induction rows arbitrary: tbl accI accR ids rs)
  case Nil
  then show ?case by simp
next
  case (Cons r rows)
  then show ?case
    by (auto split: prod.splits sum.splits option.splits)
qed

lemma Insert_loop_failure:
  "insert_each e db tbl pre = Some (ids, rs, tbl1) \<Longrightarrow> insert e db tbl1 r = (Inl err, r', tbl2) \<Longrightarrow>
     Insert_loop e db tbl (pre @ r # post) accI accR = (Inl err, tbl2)"
proof (induction pre arbitrary: tbl accI accR ids rs)
  case Nil
  then show ?case by simp
next
  case (Cons a pre)
  then show ?case
    by (auto split: prod.splits sum.splits option.splits)
qed

lemma Insert_loop_Inr:
  "Insert_loop e db tbl rows accI accR = (Inr (ids, rs), tbl') \<Longrightarrow>
     \<exists>ids' rs'. ids = accI @ ids' \<and> rs = accR @ rs' \<and> insert_each e db tbl rows = Some (ids', rs', tbl')"
proof (induction rows arbitrary: tbl accI accR)
  case Nil
  then show ?case by simp
next
  case (Cons r rows)
  obtain res r1 tbl1 where i: "insert e db tbl r = (res, r1, tbl1)" by (cases "insert e db tbl r")
  show ?case
  proof (cases res)
    case (Inl x)
    then show ?thesis using Cons.prems i by simp
  next
    case (Inr rowId)
    then have "Insert_loop e db tbl1 rows (accI @ [rowId]) (accR @ [r1]) = (Inr (ids, rs), tbl')"
      using Cons.prems i by simp
    from Cons.IH [OF this] obtain ids' rs' where
      "ids = (accI @ [rowId]) @ ids'" "rs = (accR @ [r1]) @ rs'"
      "insert_each e db tbl1 rows = Some (ids', rs', tbl')" by blast
    then show ?thesis using i Inr by simp
  qed
qed

lemma insert_each_committed:
  "insert_each e db tbl rows = Some (ids, rs, tbl') \<Longrightarrow> committed tbl tbl'"
proof (induction rows arbitrary: tbl ids rs)
  case Nil
  then show ?case by simp
next
  case (Cons r rows)
  obtain res r1 tbl1 where i: "insert e db tbl r = (res, r1, tbl1)" by (cases "insert e db tbl r")
  then have c: "committed tbl tbl1" using insert_committed [of tbl e db r] by simp
  show ?case
  proof (cases res)
    case (Inl x)
    then show ?thesis using Cons.prems i by simp
  next
    case (Inr rowId)
    then obtain ids' rs' where "insert_each e db tbl1 rows = Some (ids', rs', tbl')"
      using Cons.prems i by (auto split: option.splits)
    from Cons.IH [OF this] show ?thesis using c committed_trans by blast
  qed
qed

lemma insert_each_length:
  "insert_each e db tbl rows = Some (ids, rs, tbl') \<Longrightarrow> length ids = length rows \<and> length rs = length rows"
  by (induction rows arbitrary: tbl ids rs) (auto split: prod.splits sum.splits option.splits)


section \<open>Running the model\<close>

lemmas run_defs = insert_def check_column_def check_type_def check_INT_def check_int_value_def
  check_int_range_def check_unique_def check_reference_def writeRow_def index_value_def
  CheckIndexedColumn_def btree_Get_def btree_Put_def btree_Remove_def pager_Write_def pager_GetPage_def
  pager_WriteTo_def pager_DeletePage_def IncrementSequence_def file_Write_def file_Seek0_def file_Truncate0_def
  EncodeRow_def decodeRow_def Compress_def Decompress_def Encrypt_def Decrypt_def
  row_get_def row_has_def sprintv_def sprint_v_def show_int_def show_nat.simps digit_char_def
  ToUpper_def upper_char_def ParseInt_def digit_of_def bytes_of_def GetRow_def wrap64_def

lemmas toy_defs = toy_env_def toy_rows_def empty_db_def plain_table_def id_column_def

section \<open>UUID columns and batches\<close>

lemma insert_UUID_fails:
  assumes "(colName, colDef) \<in> set (TableSchema tbl)"
    and "ToUpper (DataType colDef) = ''UUID''" and "NotNull colDef"
  shows "\<exists>err r1 tbl1. insert e db tbl r = (Inl err, r1, tbl1) \<and> seq_only tbl tbl1"
proof -
  obtain err r1 tbl1 where c: "check_columns e db (TableSchema tbl) r tbl = (Some err, r1, tbl1)"
    using check_columns_UUID_notnull [OF assms] by blast
  then have "seq_only tbl tbl1" using seq_only_check_columns [of tbl e db "TableSchema tbl" r] by simp
  then show ?thesis using c by (simp add: insert_def)
qed

lemma seq_only_Rows: "seq_only t t' \<Longrightarrow> Rows t' = Rows t \<and> Indexes t' = Indexes t"
  unfolding seq_only_def by (metis Table.select_convs(2,3) Table.surjective Table.update_convs(6))

theorem insert_UUID_not_null:
  assumes "(colName, colDef) \<in> set (TableSchema tbl)"
    and "ToUpper (DataType colDef) = ''UUID''" and "NotNull colDef"
  shows "(\<exists>err. fst (insert e db tbl r) = Inl err)
    \<and> (rows \<noteq> [] \<longrightarrow> (\<exists>err. fst (Insert e db tbl rows) = Inl err))
    \<and> Rows (snd (Insert e db tbl rows)) = Rows tbl
    \<and> Indexes (snd (Insert e db tbl rows)) = Indexes tbl"
proof -
  have a: "\<exists>err. fst (insert e db tbl r) = Inl err" using insert_UUID_fails [OF assms, of e db r] by auto
  have b: "(rows \<noteq> [] \<longrightarrow> (\<exists>err. fst (Insert e db tbl rows) = Inl err))
    \<and> Rows (snd (Insert e db tbl rows)) = Rows tbl \<and> Indexes (snd (Insert e db tbl rows)) = Indexes tbl"
  proof (cases rows)
    case Nil
    then show ?thesis by (simp add: Insert_def)
  next
    case (Cons r0 rest)
    obtain err r1 tbl1 where i: "insert e db tbl r0 = (Inl err, r1, tbl1)" and s: "seq_only tbl tbl1"
      using insert_UUID_fails [OF assms, of e db r0] by blast
    show ?thesis using Cons i seq_only_Rows [OF s] by (simp add: Insert_def)
  qed
  show ?thesis using a b by blast
qed

theorem insert_UUID_not_null_witness:
  "(\<exists>err. fst (insert toy_env empty_db uuid_table
        [(''k'', VString ''123e4567-e89b-12d3-a456-426614174000'')]) = Inl err)
   \<and> (\<exists>err. fst (Insert toy_env empty_db uuid_table
        [[(''k'', VString ''123e4567-e89b-12d3-a456-426614174000'')]]) = Inl err)
   \<and> Rows (snd (Insert toy_env empty_db uuid_table
        [[(''k'', VString ''123e4567-e89b-12d3-a456-426614174000'')]])) = \<lparr>pages = [], deleted = []\<rparr>"
  using insert_UUID_not_null [of "''k''" uuid_column uuid_table toy_env empty_db
      "[(''k'', VString ''123e4567-e89b-12d3-a456-426614174000'')]"
      "[[(''k'', VString ''123e4567-e89b-12d3-a456-426614174000'')]]"]
  by (simp add: uuid_table_def uuid_column_def ToUpper_def upper_char_def)

theorem Insert_batch:
  "(Insert e db tbl rows = (Inr (ids, rs), tbl') \<longleftrightarrow> insert_each e db tbl rows = Some (ids, rs, tbl'))
   \<and> (insert_each e db tbl pre = Some (ids, rs, tbl1) \<longrightarrow> insert e db tbl1 r = (Inl err, r', tbl2) \<longrightarrow>
        Insert e db tbl (pre @ r # post) = (Inl err, tbl2)
        \<and> length ids = length pre \<and> committed tbl tbl1 \<and> committed tbl1 tbl2)"
proof -
  have a: "Insert e db tbl rows = (Inr (ids, rs), tbl') \<longleftrightarrow> insert_each e db tbl rows = Some (ids, rs, tbl')"
    unfolding Insert_def using Insert_loop_Inr [of e db tbl rows "[]" "[]" ids rs tbl']
      Insert_loop_success [of e db tbl rows ids rs tbl' "[]" "[]"] by auto
  have b: "Insert e db tbl (pre @ r # post) = (Inl err, tbl2)
        \<and> length ids = length pre \<and> committed tbl tbl1 \<and> committed tbl1 tbl2"
    if p: "insert_each e db tbl pre = Some (ids, rs, tbl1)" and f: "insert e db tbl1 r = (Inl err, r', tbl2)"
    using Insert_loop_failure [OF p f, of post "[]" "[]"] insert_each_length [OF p]
      insert_each_committed [OF p] insert_committed [of tbl1 e db r] f
    by (simp add: Insert_def)
  show ?thesis using a b by blast
qed

lemma run_insert_row1: "insert toy_env empty_db plain_table row1 = (Inr 0, row1, plain_table1)"
  by (simp add: run_defs toy_defs row1_def plain_table1_def)

lemma run_insert_row1_again:
  "insert toy_env empty_db plain_table1 row1 = (Inl (RowAlreadyExists ''id'' ''1''), row1, plain_table1)"
  by (simp add: run_defs toy_defs row1_def plain_table1_def)

theorem Insert_batch_witness:
  "Insert toy_env empty_db plain_table [row1] = (Inr ([0], [row1]), plain_table1)
   \<and> Insert toy_env empty_db plain_table [row1, row1, row2] = (Inl (RowAlreadyExists ''id'' ''1''), plain_table1)
   \<and> committed plain_table plain_table1"
  using Insert_batch [of toy_env empty_db plain_table "[row1]" "[0]" "[row1]" plain_table1
      "[row1]" plain_table1 row1 "RowAlreadyExists ''id'' ''1''" row1 plain_table1 "[row2]"]
  by (simp add: run_insert_row1 run_insert_row1_again)



section \<open>The sequence\<close>

lemma wrap64_id: "- (2 ^ 63) \<le> i \<Longrightarrow> i < 2 ^ 63 \<Longrightarrow> wrap64 i = i"
  by (simp add: wrap64_def)

lemma IncrementSequence_empty:
  "content (SequenceFile tbl) = [] \<Longrightarrow>
     IncrementSequence tbl = (Inr 1, tbl\<lparr>SequenceFile := file_Write (SequenceFile tbl) ''1''\<rparr>)"
  by (simp add: IncrementSequence_def)

lemma IncrementSequence_parsed:
  "content (SequenceFile tbl) \<noteq> [] \<Longrightarrow> ParseInt (content (SequenceFile tbl)) = Some n \<Longrightarrow>
     IncrementSequence tbl =
       (Inr (wrap64 (n + 1)),
        tbl\<lparr>SequenceFile := \<lparr>content = show_int (wrap64 (n + 1)),
                               offset = length (show_int (wrap64 (n + 1)))\<rparr>\<rparr>)"
  by (simp add: IncrementSequence_def file_Write_def file_Seek0_def file_Truncate0_def Let_def)

lemma IncrementSequence_after:
  assumes "SequenceFile tbl = seq_file_after k" and "int k < 2 ^ 63 - 1"
  shows "IncrementSequence tbl = (Inr (int k + 1), tbl\<lparr>SequenceFile := seq_file_after (k + 1)\<rparr>)"
proof (cases "k = 0")
  case True
  have "show_nat 1 = ''1''" by (simp add: show_nat.simps digit_char_def)
  then show ?thesis using True assms IncrementSequence_empty [of tbl]
    by (simp add: seq_file_after_def file_Write_def)
next
  case False
  have ne: "content (SequenceFile tbl) \<noteq> []" using False assms by (simp add: seq_file_after_def show_nat_nonempty)
  have p: "ParseInt (content (SequenceFile tbl)) = Some (int k)"
    using False assms ParseInt_show_nat [of k] by (simp add: seq_file_after_def)
  have w: "wrap64 (int k + 1) = int k + 1" using assms by (intro wrap64_id) auto
  have s: "show_int (int k + 1) = show_nat (k + 1)" by (simp add: show_int_def nat_add_distrib)
  show ?thesis using IncrementSequence_parsed [OF ne p] w s by (simp add: seq_file_after_def)
qed

text \<open>A column without the sequence flag leaves the table as it is.\<close>

lemma tbl_check_type_no_sequence:
  "\<not> Sequence cd \<Longrightarrow> snd (snd (check_type e c cd r tbl)) = tbl"
  by (simp add: check_type_def Let_def tbl_check_TEXT tbl_check_BOOL tbl_check_BLOB tbl_check_BINARY
      tbl_check_UUID tbl_check_DATETIME tbl_check_DATE tbl_check_TIME tbl_check_CHAR
      tbl_check_NUMERIC check_INT_def tbl_check_int_value)

lemma tbl_check_column_no_sequence:
  assumes "\<not> Sequence cd"
  shows "snd (snd (check_column e db c cd r tbl)) = tbl"
proof -
  let ?r0 = "if \<not> row_has r c then row_set r c VNil else r"
  obtain f r1 tbl1 where ct: "check_type e c cd ?r0 tbl = (f, r1, tbl1)"
    by (cases "check_type e c cd ?r0 tbl")
  then have "tbl1 = tbl" using tbl_check_type_no_sequence [OF assms, of e c ?r0 tbl] by simp
  then show ?thesis using ct
    by (simp add: check_column_def Let_def split: flow.split option.split)
qed

text \<open>The check of one column changes the row at that column only.\<close>

lemma map_of_row_set: "map_of (row_set r c v) = (map_of r)(c \<mapsto> v)"
  by (induction r) (auto simp: fun_eq_iff)

lemma row_get_row_set: "row_get (row_set r c v) c' = (if c' = c then v else row_get r c')"
  by (simp add: row_get_def map_of_row_set)

lemma row_check_int_value:
  "c' \<noteq> c \<Longrightarrow> row_get (fst (snd (check_int_value c cd r tbl))) c' = row_get r c'"
  by (simp add: check_int_value_def check_int_range_def row_get_row_set split: val.split)

lemma row_check_TEXT: "fst (snd (check_TEXT c r tbl)) = r"
  by (simp add: check_TEXT_def split: val.split)

lemma row_check_BOOL: "fst (snd (check_BOOL c r tbl)) = r"
  by (simp add: check_BOOL_def split: val.split)

lemma row_decode_hex_column:
  "c' \<noteq> c \<Longrightarrow> row_get (fst (snd (decode_hex_column c s r tbl))) c' = row_get r c'"
  by (simp add: decode_hex_column_def row_get_row_set split: prod.split)

lemma row_check_BLOB: "c' \<noteq> c \<Longrightarrow> row_get (fst (snd (check_BLOB c r tbl))) c' = row_get r c'"
  by (simp add: check_BLOB_def row_decode_hex_column split: val.split)

lemma row_check_BINARY: "c' \<noteq> c \<Longrightarrow> row_get (fst (snd (check_BINARY c cd r tbl))) c' = row_get r c'"
  by (simp add: check_BINARY_def row_decode_hex_column split: val.split)

lemma row_check_UUID: "c' \<noteq> c \<Longrightarrow> row_get (fst (snd (check_UUID e c cd r tbl))) c' = row_get r c'"
  by (simp add: check_UUID_def Let_def row_get_row_set split: val.split option.split default_value.split)

lemma row_check_DATETIME: "c' \<noteq> c \<Longrightarrow> row_get (fst (snd (check_DATETIME e c cd r tbl))) c' = row_get r c'"
  by (simp add: check_DATETIME_def Let_def row_get_row_set
      split: val.split option.split default_value.split sum.split)

lemma row_check_DATE: "c' \<noteq> c \<Longrightarrow> row_get (fst (snd (check_DATE e c cd r tbl))) c' = row_get r c'"
  by (simp add: check_DATE_def Let_def row_get_row_set split: val.split sum.split)

lemma row_check_TIME: "c' \<noteq> c \<Longrightarrow> row_get (fst (snd (check_TIME e c cd r tbl))) c' = row_get r c'"
  by (simp add: check_TIME_def Let_def row_get_row_set split: val.split sum.split)

lemma row_check_CHAR: "fst (snd (check_CHAR c cd r tbl)) = r"
  by (simp add: check_CHAR_def split: val.split)

lemma row_check_NUMERIC: "fst (snd (check_NUMERIC e c cd r tbl)) = r"
  by (simp add: check_NUMERIC_def Let_def split: val.split)

lemma row_check_INT: "c' \<noteq> c \<Longrightarrow> row_get (fst (snd (check_INT c cd r tbl))) c' = row_get r c'"
  by (simp add: check_INT_def row_check_int_value row_get_row_set split: option.split sum.split prod.split)

lemma row_check_type:
  "c' \<noteq> c \<Longrightarrow> row_get (fst (snd (check_type e c cd r tbl))) c' = row_get r c'"
  by (simp add: check_type_def Let_def row_check_TEXT row_check_BOOL row_check_BLOB row_check_BINARY
      row_check_UUID row_check_DATETIME row_check_DATE row_check_TIME row_check_CHAR
      row_check_NUMERIC row_check_INT)

lemma row_check_column:
  assumes "c' \<noteq> c"
  shows "row_get (fst (snd (check_column e db c cd r tbl))) c' = row_get r c'"
proof -
  let ?r0 = "if \<not> row_has r c then row_set r c VNil else r"
  have r0: "row_get ?r0 c' = row_get r c'" using assms by (simp add: row_get_row_set)
  obtain f r1 tbl1 where ct: "check_type e c cd ?r0 tbl = (f, r1, tbl1)"
    by (cases "check_type e c cd ?r0 tbl")
  then have "row_get r1 c' = row_get r c'" using row_check_type [OF assms, of e cd ?r0 tbl] r0 by simp
  then show ?thesis using ct
    by (simp add: check_column_def Let_def split: flow.split option.split)
qed


lemma check_int_value_VInt:
  "row_get r c = VInt i \<Longrightarrow> check_int_value c cd r tbl = check_int_range c cd i r tbl"
  by (simp add: check_int_value_def)

lemma check_column_sequence:
  assumes sq: "Sequence cd"
    and dt: "ToUpper (DataType cd) = ''INT'' \<or> ToUpper (DataType cd) = ''INTEGER''"
    and st: "check_column e db c cd r tbl = (f, r1, tbl1)"
    and ok: "\<forall>err. f \<noteq> Return err"
  shows "\<exists>seq. IncrementSequence tbl = (Inr seq, tbl1) \<and> row_get r1 c = VInt seq \<and> seq \<le> 2147483647"
proof -
  let ?r0 = "if \<not> row_has r c then row_set r c VNil else r"
  have ct: "check_type e c cd ?r0 tbl = check_INT c cd ?r0 tbl"
    using dt by (auto simp: check_type_def Let_def)
  obtain res tblI where inc: "IncrementSequence tbl = (res, tblI)" by (cases "IncrementSequence tbl")
  obtain g r2 tbl2 where cty: "check_type e c cd ?r0 tbl = (g, r2, tbl2)"
    by (cases "check_type e c cd ?r0 tbl")
  have g: "(\<forall>err. g \<noteq> Return err) \<and> r1 = r2 \<and> tbl1 = tbl2"
    using st ok cty sq by (auto simp: check_column_def Let_def split: flow.splits option.splits)
  have "\<exists>seq. res = Inr seq \<and> tbl2 = tblI \<and> r2 = row_set ?r0 c (VInt seq) \<and> seq \<le> 2147483647"
  proof (cases "CheckIndexedColumn tbl c True")
    case None
    then show ?thesis using cty ct g sq by (auto simp: check_INT_def)
  next
    case (Some idx)
    show ?thesis
    proof (cases res)
      case (Inl err)
      then show ?thesis using cty ct g sq Some inc by (auto simp: check_INT_def)
    next
      case (Inr seq)
      have "check_int_value c cd (row_set ?r0 c (VInt seq)) tblI = (g, r2, tbl2)"
        using cty ct sq Some inc Inr by (simp add: check_INT_def)
      then have "check_int_range c cd seq (row_set ?r0 c (VInt seq)) tblI = (g, r2, tbl2)"
        by (simp add: check_int_value_VInt row_get_row_set)
      then show ?thesis using g Inr dt
        by (auto simp: check_int_range_def split: if_splits)
    qed
  qed
  then show ?thesis using g inc by (auto simp: row_get_row_set)
qed

lemma check_columns_no_sequence:
  assumes "\<forall>(c', cd') \<in> set cols. \<not> Sequence cd'" and "c \<notin> fst ` set cols"
  shows "snd (snd (check_columns e db cols r tbl)) = tbl
    \<and> row_get (fst (snd (check_columns e db cols r tbl))) c = row_get r c"
  using assms
proof (induction cols arbitrary: r tbl)
  case Nil
  then show ?case by simp
next
  case (Cons a cols)
  obtain c0 cd0 where a: "a = (c0, cd0)" by (cases a)
  obtain f r1 tbl1 where st: "check_column e db c0 cd0 r tbl = (f, r1, tbl1)"
    by (cases "check_column e db c0 cd0 r tbl")
  have ns: "\<not> Sequence cd0" and ne: "c \<noteq> c0" using Cons.prems a by auto
  have t: "tbl1 = tbl" using tbl_check_column_no_sequence [OF ns, of e db c0 r tbl] st by simp
  have rr: "row_get r1 c = row_get r c" using row_check_column [OF ne, of e db cd0 r tbl] st by simp
  have ih: "snd (snd (check_columns e db cols r1 tbl1)) = tbl1
    \<and> row_get (fst (snd (check_columns e db cols r1 tbl1))) c = row_get r1 c"
    using Cons.IH [of r1 tbl1] Cons.prems by auto
  show ?case using a st t rr ih by (cases f) simp_all
qed

lemma check_columns_sequence:
  assumes "distinct (map fst cols)" and "(c, cd) \<in> set cols"
    and "Sequence cd"
    and "ToUpper (DataType cd) = ''INT'' \<or> ToUpper (DataType cd) = ''INTEGER''"
    and "\<forall>(c', cd') \<in> set cols. Sequence cd' \<longrightarrow> c' = c"
    and "check_columns e db cols r tbl = (None, r', tbl')"
  shows "\<exists>seq. IncrementSequence tbl = (Inr seq, tbl') \<and> row_get r' c = VInt seq \<and> seq \<le> 2147483647"
  using assms(1,2,5,6)
proof (induction cols arbitrary: r tbl)
  case Nil
  then show ?case by simp
next
  case (Cons a cols)
  obtain c0 cd0 where a: "a = (c0, cd0)" by (cases a)
  obtain f r1 tbl1 where st: "check_column e db c0 cd0 r tbl = (f, r1, tbl1)"
    by (cases "check_column e db c0 cd0 r tbl")
  have ok: "\<forall>err. f \<noteq> Return err" using Cons.prems(4) a st by (cases f) auto
  have rest: "check_columns e db cols r1 tbl1 = (None, r', tbl')"
    using Cons.prems(4) a st by (cases f) auto
  show ?case
  proof (cases "c0 = c")
    case True
    have cd0: "cd0 = cd" using Cons.prems(1,2) a True by (auto simp: image_iff)
    obtain seq where s: "IncrementSequence tbl = (Inr seq, tbl1)" "row_get r1 c = VInt seq" "seq \<le> 2147483647"
      using check_column_sequence [OF assms(3,4) _ ok, of e db c r tbl r1 tbl1] st True cd0 by blast
    have notin: "c \<notin> fst ` set cols" using Cons.prems(1) a True by auto
    have noseq: "\<forall>(c', cd') \<in> set cols. \<not> Sequence cd'"
      using Cons.prems(3) notin by (auto simp: image_iff)
    have "tbl' = tbl1 \<and> row_get r' c = row_get r1 c"
      using check_columns_no_sequence [OF noseq notin, of e db r1 tbl1] rest by simp
    then show ?thesis using s by simp
  next
    case False
    have ns: "\<not> Sequence cd0" using Cons.prems(3) a False by auto
    have t: "tbl1 = tbl" using tbl_check_column_no_sequence [OF ns, of e db c0 r tbl] st by simp
    have "(c, cd) \<in> set cols" using Cons.prems(2) a False by auto
    moreover have "distinct (map fst cols)" using Cons.prems(1) by simp
    moreover have "\<forall>(c', cd') \<in> set cols. Sequence cd' \<longrightarrow> c' = c" using Cons.prems(3) by auto
    ultimately show ?thesis using Cons.IH [of r1 tbl1] rest t by simp
  qed
qed

lemma SequenceFile_writeRow: "SequenceFile (snd (writeRow e tbl r)) = SequenceFile tbl
    \<and> TableSchema (snd (writeRow e tbl r)) = TableSchema tbl"
  by (auto simp: writeRow_def pager_Write_def split: sum.split)

lemma seq_only_TableSchema: "seq_only t t' \<Longrightarrow> TableSchema t' = TableSchema t"
  unfolding seq_only_def by (metis Table.select_convs(4) Table.surjective Table.update_convs(6))

lemma insert_sequence:
  assumes "distinct (map fst (TableSchema tbl))" and "(c, cd) \<in> set (TableSchema tbl)"
    and "Sequence cd"
    and "ToUpper (DataType cd) = ''INT'' \<or> ToUpper (DataType cd) = ''INTEGER''"
    and "\<forall>(c', cd') \<in> set (TableSchema tbl). Sequence cd' \<longrightarrow> c' = c"
    and "insert e db tbl r = (Inr rowId, r1, tbl2)"
  shows "\<exists>seq tbl1. IncrementSequence tbl = (Inr seq, tbl1) \<and> row_get r1 c = VInt seq \<and> seq \<le> 2147483647
      \<and> SequenceFile tbl2 = SequenceFile tbl1 \<and> TableSchema tbl2 = TableSchema tbl"
proof -
  obtain err r' tbl' where c: "check_columns e db (TableSchema tbl) r tbl = (err, r', tbl')"
    by (cases "check_columns e db (TableSchema tbl) r tbl")
  have so: "seq_only tbl tbl'" using seq_only_check_columns [of tbl e db "TableSchema tbl" r] c by simp
  have en: "err = None" using assms(6) c by (cases err) (auto simp: insert_def)
  obtain seq where s: "IncrementSequence tbl = (Inr seq, tbl')" "row_get r' c = VInt seq" "seq \<le> 2147483647"
    using check_columns_sequence [OF assms(1-5), of e db r tbl r' tbl'] c en by blast
  obtain res tblw where w: "writeRow e tbl' r' = (res, tblw)" by (cases "writeRow e tbl' r'")
  have sw: "SequenceFile tblw = SequenceFile tbl' \<and> TableSchema tblw = TableSchema tbl'"
    using SequenceFile_writeRow [of e tbl' r'] w by simp
  have "r1 = r' \<and> SequenceFile tbl2 = SequenceFile tblw \<and> TableSchema tbl2 = TableSchema tblw"
    using assms(6) c en w by (auto simp: insert_def split: sum.splits prod.splits option.splits)
  then show ?thesis using s sw seq_only_TableSchema [OF so] by auto
qed

lemma insert_each_sequence:
  assumes "distinct (map fst S)" and "(c, cd) \<in> set S" and "Sequence cd"
    and "ToUpper (DataType cd) = ''INT'' \<or> ToUpper (DataType cd) = ''INTEGER''"
    and "\<forall>(c', cd') \<in> set S. Sequence cd' \<longrightarrow> c' = c"
  shows "TableSchema tbl = S \<Longrightarrow> SequenceFile tbl = seq_file_after k \<Longrightarrow> int k \<le> 2147483647 \<Longrightarrow>
    insert_each e db tbl rows = Some (ids, rs, tbl') \<Longrightarrow>
    map (\<lambda>r. row_get r c) rs = map (\<lambda>j. VInt (int j)) [k + 1 ..< k + 1 + length rows]"
proof (induction rows arbitrary: tbl k ids rs)
  case Nil
  then show ?case by simp
next
  case (Cons r rows)
  obtain res r1 tbl1 where i: "insert e db tbl r = (res, r1, tbl1)" by (cases "insert e db tbl r")
  obtain rowId where res: "res = Inr rowId" using Cons.prems(4) i by (cases res) auto
  obtain ids' rs' where rest: "insert_each e db tbl1 rows = Some (ids', rs', tbl')"
    and rs: "rs = r1 # rs'"
    using Cons.prems(4) i res by (auto split: option.splits)
  have k63: "int k < 2 ^ 63 - 1" using Cons.prems(3) by simp
  have inc: "IncrementSequence tbl = (Inr (int k + 1), tbl\<lparr>SequenceFile := seq_file_after (k + 1)\<rparr>)"
    using IncrementSequence_after [OF Cons.prems(2) k63] .
  obtain seq tblI where s: "IncrementSequence tbl = (Inr seq, tblI)" "row_get r1 c = VInt seq"
    "seq \<le> 2147483647" "SequenceFile tbl1 = SequenceFile tblI" "TableSchema tbl1 = TableSchema tbl"
    using insert_sequence [of tbl c cd e db r rowId r1 tbl1] assms Cons.prems(1) i res by blast
  have seq: "seq = int k + 1" and sf: "SequenceFile tbl1 = seq_file_after (k + 1)"
    using s inc by auto
  have ih: "map (\<lambda>r. row_get r c) rs' = map (\<lambda>j. VInt (int j)) [(k + 1) + 1 ..< (k + 1) + 1 + length rows]"
    using Cons.IH [of tbl1 "k + 1" ids' rs'] s(3,5) Cons.prems(1) sf seq rest by simp
  have e1: "map (\<lambda>r. row_get r c) rs = VInt (int (k + 1)) # map (\<lambda>r. row_get r c) rs'"
    using rs s(2) seq by simp
  have e2: "map (\<lambda>j. VInt (int j)) [k + 1 ..< k + 1 + length (r # rows)]
      = VInt (int (k + 1)) # map (\<lambda>j. VInt (int j)) [(k + 1) + 1 ..< (k + 1) + 1 + length rows]"
    by (simp add: upt_conv_Cons del: upt_Suc)
  show ?case by (simp only: e1 e2 ih)
qed


lemma ParseInt_range: "ParseInt s = Some n \<Longrightarrow> - (2 ^ 63) \<le> n \<and> n < 2 ^ 63"
  by (auto simp: ParseInt_def Let_def split: list.splits if_splits option.splits prod.splits)

theorem IncrementSequence_counts:
  "(content (SequenceFile tbl) = [] \<longrightarrow>
      IncrementSequence tbl = (Inr 1, tbl\<lparr>SequenceFile := file_Write (SequenceFile tbl) ''1''\<rparr>))
   \<and> (content (SequenceFile tbl) \<noteq> [] \<longrightarrow> ParseInt (content (SequenceFile tbl)) = Some n \<longrightarrow>
        IncrementSequence tbl =
          (Inr (wrap64 (n + 1)),
           tbl\<lparr>SequenceFile := \<lparr>content = show_int (wrap64 (n + 1)),
                                  offset = length (show_int (wrap64 (n + 1)))\<rparr>\<rparr>)
        \<and> (n < 2 ^ 63 - 1 \<longrightarrow> wrap64 (n + 1) = n + 1))
   \<and> (SequenceFile tbl = \<lparr>content = [], offset = 0\<rparr> \<longrightarrow>
        distinct (map fst (TableSchema tbl)) \<longrightarrow> (c, cd) \<in> set (TableSchema tbl) \<longrightarrow> Sequence cd \<longrightarrow>
        (ToUpper (DataType cd) = ''INT'' \<or> ToUpper (DataType cd) = ''INTEGER'') \<longrightarrow>
        (\<forall>(c', cd') \<in> set (TableSchema tbl). Sequence cd' \<longrightarrow> c' = c) \<longrightarrow>
        insert_each e db tbl rows = Some (ids, rs, tbl') \<longrightarrow>
        map (\<lambda>r. row_get r c) rs = map (\<lambda>j. VInt (int j)) [1 ..< 1 + length rows])"
proof -
  have a: "content (SequenceFile tbl) = [] \<longrightarrow>
      IncrementSequence tbl = (Inr 1, tbl\<lparr>SequenceFile := file_Write (SequenceFile tbl) ''1''\<rparr>)"
    using IncrementSequence_empty by blast
  have b: "content (SequenceFile tbl) \<noteq> [] \<longrightarrow> ParseInt (content (SequenceFile tbl)) = Some n \<longrightarrow>
        IncrementSequence tbl =
          (Inr (wrap64 (n + 1)),
           tbl\<lparr>SequenceFile := \<lparr>content = show_int (wrap64 (n + 1)),
                                  offset = length (show_int (wrap64 (n + 1)))\<rparr>\<rparr>)
        \<and> (n < 2 ^ 63 - 1 \<longrightarrow> wrap64 (n + 1) = n + 1)"
    using IncrementSequence_parsed [of tbl n] ParseInt_range [of "content (SequenceFile tbl)" n]
      wrap64_id [of "n + 1"] by auto
  have c: "map (\<lambda>r. row_get r c) rs = map (\<lambda>j. VInt (int j)) [1 ..< 1 + length rows]"
    if "SequenceFile tbl = \<lparr>content = [], offset = 0\<rparr>" "distinct (map fst (TableSchema tbl))"
      "(c, cd) \<in> set (TableSchema tbl)" "Sequence cd"
      "ToUpper (DataType cd) = ''INT'' \<or> ToUpper (DataType cd) = ''INTEGER''"
      "\<forall>(c', cd') \<in> set (TableSchema tbl). Sequence cd' \<longrightarrow> c' = c"
      "insert_each e db tbl rows = Some (ids, rs, tbl')"
    using insert_each_sequence [OF that(2-6), of tbl 0 e db rows ids rs tbl'] that(1,7)
    by (simp add: seq_file_after_def)
  show ?thesis using a b c by blast
qed

lemma run_seq_insert1: "insert toy_env empty_db seq_table [] = (Inr 0, [(''id'', VInt 1)], seq_table1)"
  by (simp add: run_defs toy_defs seq_table_def seq_table1_def seq_column_def)

lemma run_seq_insert2: "insert toy_env empty_db seq_table1 [] = (Inr 1, [(''id'', VInt 2)], seq_table2)"
  by (simp add: run_defs toy_defs seq_table_def seq_table1_def seq_table2_def seq_column_def)

lemma run_seq_inserts:
  "insert_each toy_env empty_db seq_table [[], []]
     = Some ([0, 1], [[(''id'', VInt 1)], [(''id'', VInt 2)]], seq_table2)"
  by (simp add: run_seq_insert1 run_seq_insert2)

theorem IncrementSequence_counts_witness:
  "IncrementSequence seq_table = (Inr 1, seq_table\<lparr>SequenceFile := \<lparr>content = ''1'', offset = 1\<rparr>\<rparr>)
   \<and> IncrementSequence (seq_table\<lparr>SequenceFile := \<lparr>content = ''41'', offset = 2\<rparr>\<rparr>)
       = (Inr 42, seq_table\<lparr>SequenceFile := \<lparr>content = ''42'', offset = 2\<rparr>\<rparr>)
   \<and> map (\<lambda>r. row_get r ''id'') [[(''id'', VInt 1)], [(''id'', VInt 2)]] = [VInt 1, VInt 2]"
  using IncrementSequence_counts [of seq_table 0 "''id''" seq_column toy_env empty_db "[[], []]"
      "[0, 1]" "[[(''id'', VInt 1)], [(''id'', VInt 2)]]" seq_table2]
    IncrementSequence_counts [of "seq_table\<lparr>SequenceFile := \<lparr>content = ''41'', offset = 2\<rparr>\<rparr>" 41
      "''id''" seq_column toy_env empty_db "[]" "[]" "[]" seq_table]
    run_seq_inserts
  by (simp add: seq_table_def plain_table_def seq_column_def file_Write_def ParseInt_def digit_of_def
      wrap64_def show_int_def show_nat.simps digit_char_def ToUpper_def upper_char_def row_get_def)


section \<open>Key derivation\<close>

lemma derive_key_result:
  "derive_key e key tbl = Inr tbl' \<Longrightarrow>
     Table.Encrypt tbl' \<and> HashedKey tbl' = take 32 (sha256_sum e key) \<and> Nonce tbl' = replicate 12 0"
  by (auto simp: derive_key_def Let_def split: if_splits)

theorem CreateTable_key_and_nonce:
  assumes "CreateTable e fs db name schema True compress key = (None, db')"
  shows "\<exists>tbl. Tables db' name = Some tbl \<and> Table.Encrypt tbl
    \<and> HashedKey tbl = take 32 (sha256_sum e key)
    \<and> Nonce tbl = replicate 12 0
    \<and> (length (sha256_sum e key) = 32 \<longrightarrow>
         HashedKey tbl = sha256_sum e key
         \<and> (Nonce tbl = drop 20 (sha256_sum e key) \<longleftrightarrow> drop 20 (sha256_sum e key) = replicate 12 0))"
proof -
  obtain sch where sch: "schema = Some sch" using assms by (cases schema) (auto simp: CreateTable_def)
  let ?tbl0 = "\<lparr>Table.Name = name, Indexes = [],
                        Rows = \<lparr>pages = [], deleted = []\<rparr>,
                        TableSchema = sch,
                        Directory = Database.Directory db @ path_separator e @ name,
                        SequenceFile = \<lparr>content = [], offset = 0\<rparr>,
                        Compress = False, Encrypt = False,
                        HashedKey = replicate 32 0, Nonce = replicate 12 0\<rparr>"
  obtain tbl1 where c: "create_columns e fs sch False ?tbl0 = Inr tbl1"
    using assms sch by (cases "create_columns e fs sch False ?tbl0")
      (auto simp: CreateTable_def Let_def split: if_splits)
  obtain tbl2 where d: "derive_key e key tbl1 = Inr tbl2"
    using assms sch c by (cases "derive_key e key tbl1")
      (auto simp: CreateTable_def Let_def split: if_splits)
  have r: "Tables db' name = Some (if compress then tbl2\<lparr>Table.Compress := True\<rparr> else tbl2)"
    using assms sch c d by (auto simp: CreateTable_def Let_def split: if_splits)
  show ?thesis using r derive_key_result [OF d] by auto
qed

lemma run_CreateTable_encrypted:
  "CreateTable toy_env no_faults empty_db ''t'' (Some [(''id'', id_column)]) True False [112, 119]
     = (None, empty_db\<lparr>Tables := [''t'' \<mapsto> encrypted_table]\<rparr>)"
  by (simp add: CreateTable_def toy_env_def no_faults_def empty_db_def id_column_def plain_table_def
      encrypted_table_def derive_key_def
      MAX_TABLE_NAME_SIZE_def MAX_COLUMN_NAME_SIZE_def MAX_INDEX_NAME_SIZE_def CreateIndex_def
      create_check_type_def ToUpper_def upper_char_def)

theorem CreateTable_key_and_nonce_witness:
  "CreateTable toy_env no_faults empty_db ''t'' (Some [(''id'', id_column)]) True False [112, 119]
     = (None, empty_db\<lparr>Tables := [''t'' \<mapsto> encrypted_table]\<rparr>)
   \<and> HashedKey encrypted_table = sha256_sum toy_env [112, 119]
   \<and> Nonce encrypted_table = replicate 12 0
   \<and> Nonce encrypted_table \<noteq> drop 20 (sha256_sum toy_env [112, 119])"
  using CreateTable_key_and_nonce [of toy_env no_faults empty_db "''t''" "Some [(''id'', id_column)]" False
      "[112, 119]" "empty_db\<lparr>Tables := [''t'' \<mapsto> encrypted_table]\<rparr>"]
    run_CreateTable_encrypted
  by (simp add: toy_env_def encrypted_table_def plain_table_def)


section \<open>Uniqueness under compression\<close>

lemma CreateTable_id_table:
  assumes "IsValidDataType e ''INT''"
  shows "CreateTable e no_faults empty_db ''t'' (Some [(''id'', id_column)]) False compress key
     = (None, empty_db\<lparr>Tables := [''t'' \<mapsto> id_table (path_separator e) compress]\<rparr>)"
  using assms
  by (simp add: CreateTable_def no_faults_def empty_db_def id_column_def id_table_def
      MAX_TABLE_NAME_SIZE_def MAX_COLUMN_NAME_SIZE_def MAX_INDEX_NAME_SIZE_def CreateIndex_def
      create_check_type_def ToUpper_def upper_char_def)

lemmas step_defs = insert_def check_column_def check_type_def check_INT_def check_int_value_def
  check_int_range_def check_unique_def check_reference_def writeRow_def index_value_def
  CheckIndexedColumn_def btree_Get_def btree_Put_def btree_Remove_def pager_Write_def pager_GetPage_def
  pager_WriteTo_def pager_DeletePage_def
  EncodeRow_def decodeRow_def Compress_def Decompress_def Encrypt_def Decrypt_def
  row_get_def row_has_def sprintv_def sprint_v_def
  ToUpper_def upper_char_def GetRow_def Let_def

lemma show_int_small: "show_int 0 = ''0''" "show_int 1 = ''1''" "show_int 5 = ''5''" "show_int 2 = ''2''"
  by (simp_all add: show_int_def show_nat.simps digit_char_def)

lemma parse_small: "ParseInt ''0'' = Some 0" "ParseInt ''1'' = Some 1"
  by (simp_all add: ParseInt_def digit_of_def)

theorem insert_duplicate_when_compressed:
  assumes "IsValidDataType e ''INT''"
    and "gob_encode e row5 = Inr b"
    and "zstd_compress e b = Inr cb"
    and "zstd_decompress e cb = Inr b"
    and "gob_decode e b = Inr row5"
    and "zstd_compress e (bytes_of ''5'') = Inr ck"
  shows "\<exists>db1 tbl tbl2.
      CreateTable e no_faults empty_db ''t'' (Some [(''id'', id_column)]) False True [] = (None, db1)
    \<and> Tables db1 ''t'' = Some tbl
    \<and> Insert e db1 tbl [row5, row5] = (Inr ([0, 1], [row5, row5]), tbl2)
    \<and> deleted (Rows tbl2) = []
    \<and> GetRow e tbl2 0 = Inr row5 \<and> GetRow e tbl2 1 = Inr row5"
proof -
  let ?db1 = "empty_db\<lparr>Tables := [''t'' \<mapsto> id_table (path_separator e) True]\<rparr>"
  let ?t0 = "id_table (path_separator e) True"
  let ?key = "sprintv e (VBytes ck)"
  let ?t1 = "?t0\<lparr>Rows := \<lparr>pages = [cb], deleted = []\<rparr>,
      Indexes := [(''unique_id'', \<lparr>Index.Name = ''unique_id'', Columns = [''id''], Unique = True,
                    btree = [?key \<mapsto> [''0'']]\<rparr>)]\<rparr>"
  let ?t2 = "?t0\<lparr>Rows := \<lparr>pages = [cb, cb], deleted = []\<rparr>,
      Indexes := [(''unique_id'', \<lparr>Index.Name = ''unique_id'', Columns = [''id''], Unique = True,
                    btree = [?key \<mapsto> [''0'', ''1'']]\<rparr>)]\<rparr>"
  have k: "?key \<noteq> ''5''" by (simp add: sprintv_def sprint_v_def)
  have i1: "insert e ?db1 ?t0 row5 = (Inr 0, row5, ?t1)"
    using assms by (simp add: step_defs id_table_def id_column_def row5_def show_int_small bytes_of_def)
  have i2: "insert e ?db1 ?t1 row5 = (Inr 1, row5, ?t2)"
    using assms k
    by (simp add: step_defs id_table_def id_column_def row5_def show_int_small bytes_of_def)
  have ins: "Insert e ?db1 ?t0 [row5, row5] = (Inr ([0, 1], [row5, row5]), ?t2)"
    by (simp add: Insert_def i1 i2)
  have g: "GetRow e ?t2 0 = Inr row5 \<and> GetRow e ?t2 1 = Inr row5"
    using assms by (simp add: GetRow_def pager_GetPage_def id_table_def Decompress_def decodeRow_def)
  show ?thesis using CreateTable_id_table [OF assms(1), of True "[]"] ins g
    by (intro exI [of _ ?db1] exI [of _ ?t0] exI [of _ ?t2]) (simp add: id_table_def)
qed

theorem insert_duplicate_when_compressed_witness:
  "\<exists>db1 tbl tbl2.
      CreateTable toy_env no_faults empty_db ''t'' (Some [(''id'', id_column)]) False True [] = (None, db1)
    \<and> Tables db1 ''t'' = Some tbl
    \<and> Insert toy_env db1 tbl [row5, row5] = (Inr ([0, 1], [row5, row5]), tbl2)
    \<and> deleted (Rows tbl2) = []
    \<and> GetRow toy_env tbl2 0 = Inr row5 \<and> GetRow toy_env tbl2 1 = Inr row5"
proof -
  have h1: "IsValidDataType toy_env ''INT''" by (simp add: toy_env_def)
  have h2: "gob_encode toy_env row5 = Inr [2]" by (simp add: toy_env_def toy_rows_def row5_def)
  have h3: "zstd_compress toy_env [2] = Inr [40, 2]" by (simp add: toy_env_def)
  have h4: "zstd_decompress toy_env [40, 2] = Inr [2]" by (simp add: toy_env_def)
  have h5: "gob_decode toy_env [2] = Inr row5" by (simp add: toy_env_def toy_rows_def row5_def)
  have h6: "zstd_compress toy_env (bytes_of ''5'') = Inr [40, 53]" by (simp add: toy_env_def bytes_of_def)
  show ?thesis by (rule insert_duplicate_when_compressed [OF h1 h2 h3 h4 h5 h6])
qed


section \<open>Index keys\<close>

lemma digit_char_not_bracket: "d < 10 \<Longrightarrow> digit_char d \<noteq> CHR ''[''"
  using less_ten_cases [of d] by (auto simp: digit_char_def)

lemma show_int_not_bracket: "show_int i \<noteq> CHR ''['' # xs \<and> CHR ''['' # xs \<noteq> show_int i"
proof -
  obtain d cs where "d < 10" "show_nat (nat (if i < 0 then - i else i)) = digit_char d # cs"
    using hd_show_nat by blast
  then show ?thesis using digit_char_not_bracket [of d]
    by (auto simp: show_int_def split: if_splits)
qed

lemma compressed_key_differs:
  assumes "Table.Compress tbl" and "index_value e tbl (VInt i) = Inr k"
  shows "sprintv e k \<noteq> sprintv e (VInt i)"
proof -
  obtain c where "k = VBytes c"
    using assms by (auto simp: index_value_def split: sum.splits if_splits)
  then show ?thesis using show_int_not_bracket [of i] by (auto simp: sprintv_def sprint_v_def)
qed

theorem index_keys_diverge:
  "(Table.Compress tbl \<longrightarrow> index_value e tbl (VInt i) = Inr k \<longrightarrow> sprintv e k \<noteq> sprintv e (VInt i))
   \<and> (gob_encode e row_1_1 = Inr b1 \<longrightarrow> gob_encode e row_2_3 = Inr b2 \<longrightarrow> gob_decode e b2 = Inr row_2_3 \<longrightarrow>
        (\<exists>t1 t2 idx.
            insert e empty_db two_column_table row_1_1 = (Inr 0, row_1_1, t1)
          \<and> UpdateRow e t1 0 row_1_1 set_id_n = (None, row_2_3, t2)
          \<and> GetRow e t2 0 = Inr row_2_3
          \<and> Indexes t2 = [(''unique_id'', idx)]
          \<and> btree_Get (btree idx) ''1'' = Some [''0'']
          \<and> btree_Get (btree idx) ''2'' = Some [''0'']))"
proof -
  have a: "Table.Compress tbl \<longrightarrow> index_value e tbl (VInt i) = Inr k \<longrightarrow> sprintv e k \<noteq> sprintv e (VInt i)"
    using compressed_key_differs by blast
  have b: "\<exists>t1 t2 idx.
            insert e empty_db two_column_table row_1_1 = (Inr 0, row_1_1, t1)
          \<and> UpdateRow e t1 0 row_1_1 set_id_n = (None, row_2_3, t2)
          \<and> GetRow e t2 0 = Inr row_2_3
          \<and> Indexes t2 = [(''unique_id'', idx)]
          \<and> btree_Get (btree idx) ''1'' = Some [''0'']
          \<and> btree_Get (btree idx) ''2'' = Some [''0'']"
    if h: "gob_encode e row_1_1 = Inr b1" "gob_encode e row_2_3 = Inr b2" "gob_decode e b2 = Inr row_2_3"
  proof -
    let ?i1 = "\<lparr>Index.Name = ''unique_id'', Columns = [''id''], Unique = True, btree = [''1'' \<mapsto> [''0'']]\<rparr>"
    let ?i2 = "\<lparr>Index.Name = ''unique_id'', Columns = [''id''], Unique = True,
                btree = [''1'' \<mapsto> [''0''], ''2'' \<mapsto> [''0'']]\<rparr>"
    let ?t1 = "two_column_table\<lparr>Rows := \<lparr>pages = [b1], deleted = []\<rparr>, Indexes := [(''unique_id'', ?i1)]\<rparr>"
    let ?t2 = "two_column_table\<lparr>Rows := \<lparr>pages = [b2], deleted = []\<rparr>, Indexes := [(''unique_id'', ?i2)]\<rparr>"
    have i: "insert e empty_db two_column_table row_1_1 = (Inr 0, row_1_1, ?t1)"
      using h by (simp add: step_defs two_column_table_def plain_table_def id_column_def n_column_def
          row_1_1_def show_int_small empty_db_def)
    have u: "UpdateRow e ?t1 0 row_1_1 set_id_n = (None, row_2_3, ?t2)"
      using h by (simp add: UpdateRow_def update_check_def reindex_def step_defs two_column_table_def
          plain_table_def id_column_def n_column_def row_1_1_def row_2_3_def set_id_n_def show_int_small)
    have g: "GetRow e ?t2 0 = Inr row_2_3"
      using h by (simp add: step_defs two_column_table_def plain_table_def)
    show ?thesis using i u g
      by (intro exI [of _ ?t1] exI [of _ ?t2] exI [of _ ?i2]) (simp add: btree_Get_def)
  qed
  show ?thesis using a b by blast
qed



theorem index_keys_diverge_witness:
  "sprintv toy_env (VBytes [40, 53]) \<noteq> sprintv toy_env (VInt 5)
   \<and> (\<exists>t1 t2 idx.
          insert toy_env empty_db two_column_table row_1_1 = (Inr 0, row_1_1, t1)
        \<and> UpdateRow toy_env t1 0 row_1_1 set_id_n = (None, row_2_3, t2)
        \<and> GetRow toy_env t2 0 = Inr row_2_3
        \<and> Indexes t2 = [(''unique_id'', idx)]
        \<and> btree_Get (btree idx) ''1'' = Some [''0'']
        \<and> btree_Get (btree idx) ''2'' = Some [''0''])"
proof -
  have c1: "Table.Compress (id_table ''/'' True)" by (simp add: id_table_def)
  have c2: "index_value toy_env (id_table ''/'' True) (VInt 5) = Inr (VBytes [40, 53])"
    by (simp add: index_value_def id_table_def Compress_def toy_env_def sprintv_def sprint_v_def
        show_int_small bytes_of_def)
  have h1: "gob_encode toy_env row_1_1 = Inr [3]" by (simp add: toy_env_def toy_rows_def row_1_1_def)
  have h2: "gob_encode toy_env row_2_3 = Inr [4]" by (simp add: toy_env_def toy_rows_def row_2_3_def)
  have h3: "gob_decode toy_env [4] = Inr row_2_3" by (simp add: toy_env_def toy_rows_def row_2_3_def)
  show ?thesis
    using index_keys_diverge [of "id_table ''/'' True" toy_env 5 "VBytes [40, 53]" "[3]" "[4]"]
      c1 c2 h1 h2 h3 by blast
qed

section \<open>The stream cipher\<close>

lemma length_XORKeyStream: "length (XORKeyStream e key nonce src) = length src"
  by (simp add: XORKeyStream_def)

lemma xor_twice_nat: "xor (xor (a::nat) b) b = a"
  by (simp add: xor.assoc)

lemma XORKeyStream_twice: "XORKeyStream e key nonce (XORKeyStream e key nonce src) = src"
  by (rule nth_equalityI) (simp_all add: XORKeyStream_def xor_twice_nat)

lemma Decrypt_Encrypt:
  assumes "length key = 32" and "length nonce = 12"
  shows "\<exists>c. Encrypt e key nonce x = Inr c \<and> length c = length x \<and> Decrypt e key nonce c = Inr x"
  using assms by (simp add: Encrypt_def Decrypt_def length_XORKeyStream XORKeyStream_twice)

end
